theory Spec2Isabelle
  imports Main "HOL-Library.Sublist"
begin

section \<open>Python values, exceptions and effects\<close>

text \<open>
  The script \<^verbatim>\<open>src/app.py\<close> is a sequence of functions that print, start subprocesses
  and read the file system. Each function is embedded as a HOL function of the same name.

  \<^item> A Python \<^verbatim>\<open>str\<close> is a \<^typ>\<open>string\<close>; a \<^typ>\<open>char\<close> stands for a code point below 256.
    The three emoji of the messages in \<^verbatim>\<open>clone_repo\<close> and \<^verbatim>\<open>main\<close> lie outside that range and
    are written as their UTF-8 bytes.
  \<^item> A value produced by \<^verbatim>\<open>json.load\<close> is a \<^verbatim>\<open>json\<close>; an object is the list of its items in
    insertion order, as a Python \<^verbatim>\<open>dict\<close> keeps them. Floating point numbers are not modelled.
  \<^item> An exception of class \<^verbatim>\<open>Exception\<close> is an \<^verbatim>\<open>exn\<close>: its class and the text \<^verbatim>\<open>str(e)\<close>.
    Message texts of exceptions raised by the interpreter follow CPython 3.11.
  \<^item> \<^verbatim>\<open>sys.exit(n)\<close> raises \<^verbatim>\<open>SystemExit\<close>, which no \<^verbatim>\<open>except Exception\<close> clause catches:
    it is the outcome \<^verbatim>\<open>Exit n\<close> of a \<^verbatim>\<open>result\<close>.
  \<^item> What a function does to the outside is the list of its \<^verbatim>\<open>event\<close>s, in order.
\<close>

datatype json = JNull | JBool bool | JInt int | JStr string | JArr "json list"
  | JObj "(string \<times> json) list"

datatype exn_class = ValueError | TypeError | AttributeError | KeyError | OSError
  | JSONDecodeError | UnicodeDecodeError | CalledProcessError | RuntimeError

datatype exn = Exn exn_class string

fun exn_class_of :: "exn \<Rightarrow> exn_class" where
  "exn_class_of (Exn c m) = c"

fun exn_str :: "exn \<Rightarrow> string" where
  "exn_str (Exn c m) = m"

datatype 'a result = Return 'a | Raise exn | Exit int

datatype event =
    Print string \<comment> \<open>one call of \<^verbatim>\<open>print\<close>, without the final newline\<close>
  | Call "string list" "string option" \<comment> \<open>one \<^verbatim>\<open>subprocess.run\<close>: the command and \<^verbatim>\<open>cwd\<close>\<close>
  | Scan string \<comment> \<open>one call of \<^verbatim>\<open>detect_package_managers\<close> on a directory\<close>

definition bind_exn :: "exn + 'a \<Rightarrow> ('a \<Rightarrow> exn + 'b) \<Rightarrow> exn + 'b" where
  "bind_exn m f = (case m of Inl e \<Rightarrow> Inl e | Inr x \<Rightarrow> f x)"

subsection \<open>Strings\<close>

definition is_space :: "char \<Rightarrow> bool" where
  \<comment> \<open>\<^verbatim>\<open>str.isspace\<close> on the code points below 256\<close>
  "is_space c = (let n = (of_char c :: nat) in
     (9 \<le> n \<and> n \<le> 13) \<or> (28 \<le> n \<and> n \<le> 32) \<or> n = 133 \<or> n = 160)"

definition strip_by :: "(char \<Rightarrow> bool) \<Rightarrow> string \<Rightarrow> string" where
  "strip_by p s = rev (dropWhile p (rev (dropWhile p s)))"

definition py_strip :: "string \<Rightarrow> string" where
  \<comment> \<open>\<^verbatim>\<open>s.strip()\<close>\<close>
  "py_strip s = strip_by is_space s"

definition py_strip_chars :: "string \<Rightarrow> string \<Rightarrow> string" where
  \<comment> \<open>\<^verbatim>\<open>s.strip(chars)\<close>\<close>
  "py_strip_chars chars s = strip_by (\<lambda>c. c \<in> set chars) s"

fun py_split :: "string \<Rightarrow> string \<Rightarrow> string list" where
  \<comment> \<open>\<^verbatim>\<open>s.split(sep)\<close> for a non-empty \<^verbatim>\<open>sep\<close>: every occurrence, left to right\<close>
  "py_split sep [] = [[]]"
| "py_split sep (c # cs) =
     (if sep \<noteq> [] \<and> prefix sep (c # cs) then [] # py_split sep (drop (length sep - 1) cs)
      else (case py_split sep cs of [] \<Rightarrow> [[c]] | p # ps \<Rightarrow> (c # p) # ps))"

fun py_contains :: "string \<Rightarrow> string \<Rightarrow> bool" where
  \<comment> \<open>\<^verbatim>\<open>sub in s\<close>\<close>
  "py_contains sub [] = (sub = [])"
| "py_contains sub (c # cs) = (prefix sub (c # cs) \<or> py_contains sub cs)"

definition ljust :: "nat \<Rightarrow> string \<Rightarrow> string" where
  \<comment> \<open>the format specification \<^verbatim>\<open><w\<close> on a string: pad on the right, never cut\<close>
  "ljust w s = s @ replicate (w - length s) CHR '' ''"

fun str_nat :: "nat \<Rightarrow> string" where
  "str_nat n =
     (if n < 10 then [char_of (48 + n)] else str_nat (n div 10) @ [char_of (48 + n mod 10)])"

declare str_nat.simps [simp del]

definition str_int :: "int \<Rightarrow> string" where
  "str_int i = (if i < 0 then CHR ''-'' # str_nat (nat (- i)) else str_nat (nat i))"

definition upper_char :: "char \<Rightarrow> char" where
  "upper_char c = (let n = (of_char c :: nat) in if 97 \<le> n \<and> n \<le> 122 then char_of (n - 32) else c)"

definition py_upper :: "string \<Rightarrow> string" where
  \<comment> \<open>\<^verbatim>\<open>s.upper()\<close> on ASCII text, which the ten manager identifiers are\<close>
  "py_upper s = map upper_char s"

definition hex_digit :: "nat \<Rightarrow> char" where
  "hex_digit d = (if d < 10 then char_of (48 + d) else char_of (87 + d))"

definition repr_char :: "char \<Rightarrow> char \<Rightarrow> string" where
  \<comment> \<open>one character inside \<^verbatim>\<open>repr(s)\<close>, for the quote \<^verbatim>\<open>q\<close> that \<^verbatim>\<open>repr\<close> chose\<close>
  "repr_char q c = (let n = (of_char c :: nat) in
     if c = q \<or> n = 92 then [CHR 0x5C, c]
     else if n = 9 then [CHR 0x5C, CHR ''t'']
     else if n = 10 then [CHR 0x5C, CHR ''n'']
     else if n = 13 then [CHR 0x5C, CHR ''r'']
     else if n < 32 \<or> (127 \<le> n \<and> n \<le> 160) \<or> n = 173
       then [CHR 0x5C, CHR ''x'', hex_digit (n div 16), hex_digit (n mod 16)]
     else [c])"

definition py_repr :: "string \<Rightarrow> string" where
  \<comment> \<open>\<^verbatim>\<open>repr(s)\<close>: double quotes only when \<^verbatim>\<open>s\<close> has a single quote and no double quote\<close>
  "py_repr s = (let q = (if CHR 0x27 \<in> set s \<and> CHR 0x22 \<notin> set s then CHR 0x22 else CHR 0x27)
     in [q] @ concat (map (repr_char q) s) @ [q])"

fun join_with :: "string \<Rightarrow> string list \<Rightarrow> string" where
  "join_with sep [] = []"
| "join_with sep [x] = x"
| "join_with sep (x # y # ys) = x @ sep @ join_with sep (y # ys)"

definition str_list :: "string list \<Rightarrow> string" where
  \<comment> \<open>\<^verbatim>\<open>str\<close> of a list of strings\<close>
  "str_list xs = ''['' @ join_with '', '' (map py_repr xs) @ '']''"

subsection \<open>Equality, dictionaries and the operations on loaded JSON\<close>

fun num_of :: "json \<Rightarrow> int option" where
  "num_of (JBool b) = Some (if b then 1 else 0)"
| "num_of (JInt i) = Some i"
| "num_of _ = None"

function (sequential) py_eq :: "json \<Rightarrow> json \<Rightarrow> bool" where
  \<comment> \<open>\<^verbatim>\<open>a == b\<close>: \<^verbatim>\<open>True == 1\<close>, and two dicts are equal whatever their order\<close>
  "py_eq JNull JNull = True"
| "py_eq (JStr a) (JStr b) = (a = b)"
| "py_eq (JArr xs) (JArr ys) =
     (length xs = length ys \<and> list_all (\<lambda>(x, y). py_eq x y) (zip xs ys))"
| "py_eq (JObj a) (JObj b) =
     (length a = length b \<and>
      list_all (\<lambda>(k, v). case map_of b k of None \<Rightarrow> False | Some v' \<Rightarrow> py_eq v v') a)"
| "py_eq x y = (case (num_of x, num_of y) of (Some m, Some n) \<Rightarrow> m = n | _ \<Rightarrow> False)"
  by pat_completeness auto
termination
proof (relation "measure (\<lambda>(x, y). size x)", goal_cases)
  case 1
  show ?case by simp
next
  case (2 xs ys z x y)
  then have "x \<in> set xs" by (auto dest: set_zip_leftD)
  then have "size x \<le> size_list size xs" by (simp add: size_list_estimation')
  then show ?case by simp
next
  case (3 a b z k v v')
  then have "(k, v) \<in> set a" by simp
  then have "size v < Suc (size_list (size_prod (\<lambda>x. 0) size) a)"
    by (induction a) auto
  then show ?case by simp
qed

fun type_name :: "json \<Rightarrow> string" where
  "type_name JNull = ''NoneType''"
| "type_name (JBool b) = ''bool''"
| "type_name (JInt i) = ''int''"
| "type_name (JStr s) = ''str''"
| "type_name (JArr xs) = ''list''"
| "type_name (JObj kvs) = ''dict''"

fun hashable :: "json \<Rightarrow> bool" where
  "hashable (JArr xs) = False"
| "hashable (JObj kvs) = False"
| "hashable v = True"

type_synonym pydict = "(json \<times> json) list"

fun dict_setitem :: "pydict \<Rightarrow> json \<Rightarrow> json \<Rightarrow> pydict" where
  \<comment> \<open>\<^verbatim>\<open>d[k] = v\<close>: an equal key keeps its place and its first spelling\<close>
  "dict_setitem [] k v = [(k, v)]"
| "dict_setitem ((k', v') # d) k v =
     (if py_eq k' k then (k', v) # d else (k', v') # dict_setitem d k v)"

fun dict_lookup :: "pydict \<Rightarrow> json \<Rightarrow> json option" where
  "dict_lookup [] k = None"
| "dict_lookup ((k', v') # d) k = (if py_eq k' k then Some v' else dict_lookup d k)"

fun dict_set :: "('k \<times> 'v) list \<Rightarrow> 'k \<Rightarrow> 'v \<Rightarrow> ('k \<times> 'v) list" where
  \<comment> \<open>\<^verbatim>\<open>d[k] = v\<close> for a dict whose keys are all strings\<close>
  "dict_set [] k v = [(k, v)]"
| "dict_set ((k', v') # d) k v = (if k' = k then (k', v) # d else (k', v') # dict_set d k v)"

definition length_error :: "nat \<Rightarrow> nat \<Rightarrow> exn" where
  "length_error i n = Exn ValueError (''dictionary update sequence element #'' @ str_nat i @
     '' has length '' @ str_nat n @ ''; 2 is required'')"

definition unhashable_error :: "json \<Rightarrow> exn" where
  "unhashable_error k = Exn TypeError (''unhashable type: '' @ py_repr (type_name k))"

fun update_item :: "nat \<Rightarrow> pydict \<Rightarrow> json \<Rightarrow> exn + pydict" where
  \<comment> \<open>element \<^verbatim>\<open>i\<close> of the sequence given to \<^verbatim>\<open>dict.update\<close>: an iterable of length two\<close>
  "update_item i d (JArr xs) =
     (case xs of
        [k, v] \<Rightarrow> if hashable k then Inr (dict_setitem d k v) else Inl (unhashable_error k)
      | _ \<Rightarrow> Inl (length_error i (length xs)))"
| "update_item i d (JStr s) =
     (case s of
        [a, b] \<Rightarrow> Inr (dict_setitem d (JStr [a]) (JStr [b]))
      | _ \<Rightarrow> Inl (length_error i (length s)))"
| "update_item i d (JObj kvs) =
     (case kvs of
        [p, q] \<Rightarrow> Inr (dict_setitem d (JStr (fst p)) (JStr (fst q)))
      | _ \<Rightarrow> Inl (length_error i (length kvs)))"
| "update_item i d v = Inl (Exn TypeError
     (''cannot convert dictionary update sequence element #'' @ str_nat i @ '' to a sequence''))"

fun update_seq :: "nat \<Rightarrow> pydict \<Rightarrow> json list \<Rightarrow> exn + pydict" where
  "update_seq i d [] = Inr d"
| "update_seq i d (x # xs) =
     (case update_item i d x of Inl e \<Rightarrow> Inl e | Inr d' \<Rightarrow> update_seq (Suc i) d' xs)"

fun dict_update :: "pydict \<Rightarrow> json \<Rightarrow> exn + pydict" where
  \<comment> \<open>\<^verbatim>\<open>d.update(x)\<close>: a dict is merged, another iterable must yield pairs\<close>
  "dict_update d (JObj kvs) = Inr (fold (\<lambda>kv acc. dict_setitem acc (JStr (fst kv)) (snd kv)) kvs d)"
| "dict_update d (JArr xs) = update_seq 0 d xs"
| "dict_update d (JStr s) = (if s = [] then Inr d else Inl (length_error 0 1))"
| "dict_update d v = Inl (Exn TypeError ([CHR 0x27] @ type_name v @ ''' object is not iterable''))"

fun json_get :: "json \<Rightarrow> string \<Rightarrow> json \<Rightarrow> exn + json" where
  \<comment> \<open>\<^verbatim>\<open>x.get(k, default)\<close>: only a dict has the method\<close>
  "json_get (JObj kvs) k dflt = Inr (case map_of kvs k of Some v \<Rightarrow> v | None \<Rightarrow> dflt)"
| "json_get v k dflt = Inl (Exn AttributeError
     ([CHR 0x27] @ type_name v @ ''' object has no attribute 'get'' @ [CHR 0x27]))"

fun json_getitem :: "json \<Rightarrow> string \<Rightarrow> exn + json" where
  \<comment> \<open>\<^verbatim>\<open>x[k]\<close> for a string \<^verbatim>\<open>k\<close>\<close>
  "json_getitem (JObj kvs) k =
     (case map_of kvs k of Some v \<Rightarrow> Inr v | None \<Rightarrow> Inl (Exn KeyError (py_repr k)))"
| "json_getitem (JArr xs) k =
     Inl (Exn TypeError ''list indices must be integers or slices, not str'')"
| "json_getitem (JStr s) k = Inl (Exn TypeError (''string indices must be integers, not 'str'' @ [CHR 0x27]))"
| "json_getitem v k = Inl (Exn TypeError ([CHR 0x27] @ type_name v @ ''' object is not subscriptable''))"

fun json_iter :: "json \<Rightarrow> exn + json list" where
  \<comment> \<open>the elements a \<^verbatim>\<open>for\<close> loop over \<^verbatim>\<open>x\<close> visits\<close>
  "json_iter (JArr xs) = Inr xs"
| "json_iter (JObj kvs) = Inr (map (\<lambda>kv. JStr (fst kv)) kvs)"
| "json_iter (JStr s) = Inr (map (\<lambda>c. JStr [c]) s)"
| "json_iter v = Inl (Exn TypeError ([CHR 0x27] @ type_name v @ ''' object is not iterable''))"

section \<open>The functions of \<^verbatim>\<open>app.py\<close>\<close>

subsection \<open>\<^verbatim>\<open>validate_github_url\<close>\<close>

text \<open>
  \<^verbatim>\<open>urlparse\<close> belongs to the standard library: the function takes as a parameter what
  \<^verbatim>\<open>urlparse(url).path\<close> gives, or the exception it raises. The \<^verbatim>\<open>try\<close> block is
  \<^verbatim>\<open>validate_github_url_try\<close>; its handler prints and leaves the process with code 1.
\<close>

definition validate_github_url_try ::
  "(string \<Rightarrow> exn + string) \<Rightarrow> string \<Rightarrow> exn + (string \<times> string)" where
  "validate_github_url_try urlparse_path url =
     bind_exn (urlparse_path url) (\<lambda>path.
       let path_parts = py_split ''/'' (py_strip_chars ''/'' path) in
       if length path_parts < 2
       then Inl (Exn ValueError ''Invalid GitHub repository URL format'')
       else Inr (path_parts ! 0, path_parts ! 1))"

definition validate_github_url ::
  "(string \<Rightarrow> exn + string) \<Rightarrow> string \<Rightarrow> event list \<times> (string \<times> string) result" where
  "validate_github_url urlparse_path url =
     (case validate_github_url_try urlparse_path url of
        Inr r \<Rightarrow> ([], Return r)
      | Inl e \<Rightarrow> ([Print (''Error parsing GitHub URL: '' @ exn_str e)], Exit 1))"

definition nonempty_segments :: "string \<Rightarrow> string list" where
  \<comment> \<open>the specification's notion: the non-empty pieces of a path between its slashes\<close>
  "nonempty_segments path = filter (\<lambda>seg. seg \<noteq> []) (py_split ''/'' path)"

subsection \<open>\<^verbatim>\<open>detect_package_managers\<close>\<close>

text \<open>
  The cloned tree is a \<^verbatim>\<open>node\<close>: a directory lists its entries by name, in the order in
  which the file system yields them. A symbolic link records whether its target exists; a
  clone creates the links of the repository as they are, dangling ones too. \<^verbatim>\<open>temp_dir\<close> is
  the path of the root as \<^verbatim>\<open>tempfile\<close> gives it (absolute, without a final slash).
\<close>

datatype node = File | Dir "(string \<times> node) list" | Symlink bool

fun entries :: "node \<Rightarrow> (string \<times> node) list" where
  "entries (Dir es) = es"
| "entries n = []"

fun resolves :: "node \<Rightarrow> bool" where
  \<comment> \<open>what \<^verbatim>\<open>os.path.exists\<close> answers for an entry: it follows a link to its target\<close>
  "resolves (Symlink target_exists) = target_exists"
| "resolves n = True"

definition os_path_join :: "string \<Rightarrow> string \<Rightarrow> string" where
  \<comment> \<open>\<^verbatim>\<open>posixpath.join\<close> of two components\<close>
  "os_path_join a b =
     (if prefix ''/'' b then b
      else if a = [] \<or> last a = CHR ''/'' then a @ b
      else a @ ''/'' @ b)"

definition path_exists :: "node \<Rightarrow> string \<Rightarrow> bool" where
  \<comment> \<open>\<^verbatim>\<open>os.path.exists(os.path.join(temp_dir, name))\<close>: an entry of the root, of any kind,
      that is not a dangling link\<close>
  "path_exists root name = list_ex (\<lambda>e. fst e = name \<and> resolves (snd e)) (entries root)"

fun glob_match :: "string \<Rightarrow> string \<Rightarrow> bool" where
  \<comment> \<open>\<^verbatim>\<open>fnmatch\<close> of a name against a pattern made of literal characters and \<^verbatim>\<open>*\<close>\<close>
  "glob_match [] s = (s = [])"
| "glob_match (p # ps) [] = (p = CHR ''*'' \<and> glob_match ps [])"
| "glob_match (p # ps) (c # cs) =
     (if p = CHR ''*'' then glob_match ps (c # cs) \<or> glob_match (p # ps) cs
      else p = c \<and> glob_match ps cs)"

fun rglob :: "string \<Rightarrow> string \<Rightarrow> node \<Rightarrow> string list" where
  \<comment> \<open>\<^verbatim>\<open>Path(path).rglob(pat)\<close> as strings: the matches of a directory, whatever their kind,
      then its subdirectories; a link is matched by its name and never entered\<close>
  "rglob pat path (Dir es) =
     map (\<lambda>e. path @ ''/'' @ fst e) (filter (\<lambda>e. glob_match pat (fst e)) es) @
     concat (map (\<lambda>e. rglob pat (path @ ''/'' @ fst e) (snd e)) es)"
| "rglob pat path n = []"

definition package_files :: "(string \<times> string) list" where
  "package_files =
     [(''package.json'', ''npm''),
      (''requirements.txt'', ''pip''),
      (''Pipfile'', ''pipenv''),
      (''composer.json'', ''composer''),
      (''pom.xml'', ''maven''),
      (''build.gradle'', ''gradle''),
      (''Gemfile'', ''bundler''),
      (''go.mod'', ''go''),
      (''Cargo.toml'', ''cargo''),
      (''*.csproj'', ''dotnet'')]"

definition detect_step ::
  "string \<Rightarrow> node \<Rightarrow> string \<times> string \<Rightarrow> (string \<times> string) list \<Rightarrow> (string \<times> string) list" where
  \<comment> \<open>the body of the loop over the table; \<^verbatim>\<open>replace('*', '*')\<close> leaves the pattern as it is\<close>
  "detect_step temp_dir root entry found_managers =
     (let file_pattern = fst entry; manager = snd entry in
      if CHR ''*'' \<in> set file_pattern then
        (let matches = rglob file_pattern temp_dir root in
         if matches \<noteq> [] then dict_set found_managers manager (hd matches) else found_managers)
      else
        (let file_path = os_path_join temp_dir file_pattern in
         if path_exists root file_pattern then dict_set found_managers manager file_path
         else found_managers))"

definition detect_package_managers :: "string \<Rightarrow> node \<Rightarrow> (string \<times> string) list" where
  "detect_package_managers temp_dir root = fold (detect_step temp_dir root) package_files []"

fun has_match :: "string \<Rightarrow> node \<Rightarrow> bool" where
  \<comment> \<open>the specification's notion: some entry at any depth of the tree has a matching name\<close>
  "has_match pat (Dir es) =
     (list_ex (\<lambda>e. glob_match pat (fst e)) es \<or> list_ex (\<lambda>e. has_match pat (snd e)) es)"
| "has_match pat n = False"

definition marker_present :: "node \<Rightarrow> string \<Rightarrow> bool" where
  \<comment> \<open>the specification's notion: a literal name that exists directly under the root, a
      pattern anywhere\<close>
  "marker_present root marker =
     (if CHR ''*'' \<in> set marker then has_match marker root else path_exists root marker)"

definition trigger_path :: "string \<Rightarrow> node \<Rightarrow> string \<Rightarrow> string" where
  \<comment> \<open>the path recorded for a marker: the file itself, or the first match of a pattern\<close>
  "trigger_path temp_dir root marker =
     (if CHR ''*'' \<in> set marker then hd (rglob marker temp_dir root)
      else os_path_join temp_dir marker)"

definition detected :: "string \<Rightarrow> node \<Rightarrow> string \<times> string \<Rightarrow> (string \<times> string) list" where
  \<comment> \<open>what one row of the table adds to the manager map\<close>
  "detected temp_dir root entry =
     (if marker_present root (fst entry) then [(snd entry, trigger_path temp_dir root (fst entry))]
      else [])"

subsection \<open>\<^verbatim>\<open>parse_npm_dependencies\<close>\<close>

text \<open>
  \<^verbatim>\<open>read_json path\<close> stands for opening the file and \<^verbatim>\<open>json.load\<close>: the loaded value, or
  the exception of either step.
\<close>

definition parse_npm_dependencies_try :: "(string \<Rightarrow> exn + json) \<Rightarrow> string \<Rightarrow> exn + pydict" where
  "parse_npm_dependencies_try read_json package_json_path =
     bind_exn (read_json package_json_path) (\<lambda>data.
     bind_exn (json_get data ''dependencies'' (JObj [])) (\<lambda>d1.
     bind_exn (dict_update [] d1) (\<lambda>deps.
     bind_exn (json_get data ''devDependencies'' (JObj [])) (\<lambda>d2.
     dict_update deps d2))))"

definition parse_npm_dependencies ::
  "(string \<Rightarrow> exn + json) \<Rightarrow> string \<Rightarrow> event list \<times> pydict result" where
  "parse_npm_dependencies read_json package_json_path =
     (case parse_npm_dependencies_try read_json package_json_path of
        Inr deps \<Rightarrow> ([], Return deps)
      | Inl e \<Rightarrow> ([Print (''Error parsing package.json: '' @ exn_str e)], Return []))"

definition member_object :: "(string \<times> json) list \<Rightarrow> string \<Rightarrow> (string \<times> json) list option" where
  \<comment> \<open>the object under a key of a document: empty when the key is absent, none when the
      member is not an object\<close>
  "member_object doc k =
     (case map_of doc k of
        None \<Rightarrow> Some []
      | Some (JObj kvs) \<Rightarrow> Some kvs
      | Some _ \<Rightarrow> None)"

subsection \<open>\<^verbatim>\<open>parse_python_requirements\<close>\<close>

text \<open>
  \<^verbatim>\<open>open_lines path\<close> stands for opening the file and iterating over it: the exception of
  \<^verbatim>\<open>open\<close>, or the lines the iteration yields and the exception that ends it early, if any.
\<close>

definition unpack_error :: "nat \<Rightarrow> exn" where
  \<comment> \<open>\<^verbatim>\<open>name, version = parts\<close> when \<^verbatim>\<open>parts\<close> has not two elements\<close>
  "unpack_error n = Exn ValueError
     (if 2 < n then ''too many values to unpack (expected 2)''
      else ''not enough values to unpack (expected 2, got '' @ str_nat n @ '')'')"

definition unpack_pair ::
  "(string \<times> string) list \<Rightarrow> string list \<Rightarrow> exn + (string \<times> string) list" where
  \<comment> \<open>\<^verbatim>\<open>name, version = parts; deps[name] = version\<close>\<close>
  "unpack_pair deps parts =
     (case parts of
        [name, version] \<Rightarrow> Inr (dict_set deps name version)
      | _ \<Rightarrow> Inl (unpack_error (length parts)))"

definition requirements_line ::
  "(string \<times> string) list \<Rightarrow> string \<Rightarrow> exn + (string \<times> string) list" where
  \<comment> \<open>the body of the loop over the lines\<close>
  "requirements_line deps raw =
     (let line = py_strip raw in
      if line \<noteq> [] \<and> \<not> prefix ''#'' line then
        (if py_contains ''=='' line then unpack_pair deps (py_split ''=='' line)
         else if py_contains ''>='' line then unpack_pair deps (py_split ''>='' line)
         else Inr (dict_set deps line ''Not specified''))
      else Inr deps)"

fun requirements_loop ::
  "(string \<times> string) list \<Rightarrow> string list \<Rightarrow> exn option \<Rightarrow> (string \<times> string) list \<times> exn option" where
  \<comment> \<open>the loop: \<^verbatim>\<open>deps\<close> as it is when the loop ends, and the exception that ended it\<close>
  "requirements_loop deps [] read_error = (deps, read_error)"
| "requirements_loop deps (raw # rest) read_error =
     (case requirements_line deps raw of
        Inl e \<Rightarrow> (deps, Some e)
      | Inr deps' \<Rightarrow> requirements_loop deps' rest read_error)"

definition parse_python_requirements ::
  "(string \<Rightarrow> exn + string list \<times> exn option) \<Rightarrow> string \<Rightarrow>
   event list \<times> (string \<times> string) list result" where
  "parse_python_requirements open_lines requirements_path =
     (case open_lines requirements_path of
        Inl e \<Rightarrow> ([Print (''Error parsing requirements.txt: '' @ exn_str e)], Return [])
      | Inr (lines, read_error) \<Rightarrow>
          (case requirements_loop [] lines read_error of
             (deps, None) \<Rightarrow> ([], Return deps)
           | (deps, Some e) \<Rightarrow>
               ([Print (''Error parsing requirements.txt: '' @ exn_str e)], Return deps)))"

fun partition_first :: "string \<Rightarrow> string \<Rightarrow> string \<times> string" where
  \<comment> \<open>the specification's notion: the text before the first occurrence of \<^verbatim>\<open>sep\<close>, and the
      text after it\<close>
  "partition_first sep [] = ([], [])"
| "partition_first sep (c # cs) =
     (if prefix sep (c # cs) then ([], drop (length sep) (c # cs))
      else (case partition_first sep cs of (before, after) \<Rightarrow> (c # before, after)))"

subsection \<open>\<^verbatim>\<open>print_package_header\<close> and \<^verbatim>\<open>print_package_info\<close>\<close>

fun format_left :: "nat \<Rightarrow> json \<Rightarrow> exn + string" where
  \<comment> \<open>one replacement field \<^verbatim>\<open>{:<w}\<close>: a number is formatted as a decimal integer, and the
      types without a format of their own refuse a non-empty specification\<close>
  "format_left w (JStr s) = Inr (ljust w s)"
| "format_left w (JInt i) = Inr (ljust w (str_int i))"
| "format_left w (JBool b) = Inr (ljust w (if b then ''1'' else ''0''))"
| "format_left w v = Inl (Exn TypeError
     (''unsupported format string passed to '' @ type_name v @ ''.__format__''))"

definition format_row :: "json \<Rightarrow> json \<Rightarrow> json \<Rightarrow> json \<Rightarrow> exn + string" where
  \<comment> \<open>\<^verbatim>\<open>"{:<40} {:<20} {:<20} {:<20}".format(a, b, c, d)\<close>\<close>
  "format_row a b c d =
     bind_exn (format_left 40 a) (\<lambda>fa.
     bind_exn (format_left 20 b) (\<lambda>fb.
     bind_exn (format_left 20 c) (\<lambda>fc.
     bind_exn (format_left 20 d) (\<lambda>fd.
     Inr (fa @ '' '' @ fb @ '' '' @ fc @ '' '' @ fd)))))"

fun slice39 :: "json \<Rightarrow> exn + json" where
  \<comment> \<open>\<^verbatim>\<open>name[:39]\<close>\<close>
  "slice39 (JStr s) = Inr (JStr (take 39 s))"
| "slice39 (JArr xs) = Inr (JArr (take 39 xs))"
| "slice39 (JObj kvs) = Inl (Exn TypeError (''unhashable type: 'slice'' @ [CHR 0x27]))"
| "slice39 v = Inl (Exn TypeError ([CHR 0x27] @ type_name v @ ''' object is not subscriptable''))"

definition header_line :: string where
  "header_line = ljust 40 ''Package Name'' @ '' '' @ ljust 20 ''Current Version'' @ '' '' @
     ljust 20 ''Latest Version'' @ '' '' @ ljust 20 ''Status''"

definition print_package_header :: "event list" where
  "print_package_header = [Print ([CHR 0x0A] @ header_line), Print (replicate 100 CHR ''-'')]"

definition print_package_info :: "json \<Rightarrow> json \<Rightarrow> json \<Rightarrow> exn + event list" where
  \<comment> \<open>the parameter \<^verbatim>\<open>wanted\<close> is never read\<close>
  "print_package_info name current latest =
     (let status = (if \<not> py_eq current latest then ''Update Available'' else ''Up to date'');
          current_ver = (if \<not> py_eq current (JStr ''N/A'') then current else JStr ''-'');
          latest_ver = (if \<not> py_eq latest (JStr ''N/A'') then latest else JStr ''-'')
      in bind_exn (slice39 name) (\<lambda>shown.
         bind_exn (format_row shown current_ver latest_ver (JStr status)) (\<lambda>line.
         Inr [Print line])))"

subsection \<open>\<^verbatim>\<open>check_outdated_packages\<close>\<close>

text \<open>
  The world outside the script is a value of a type \<^verbatim>\<open>'w\<close>, threaded through the calls that
  read or change it. \<^verbatim>\<open>run\<close> is \<^verbatim>\<open>subprocess.run\<close> without \<^verbatim>\<open>check\<close>: the finished process,
  or the exception of starting it or decoding its output.
\<close>

record proc =
  returncode :: int
  stdout :: string
  stderr :: string

record 'w env =
  urlparse_path :: "string \<Rightarrow> exn + string"
  mkdtemp :: "'w \<Rightarrow> string \<times> 'w"
  which_git :: "'w \<Rightarrow> bool"
  run :: "'w \<Rightarrow> string list \<Rightarrow> string option \<Rightarrow> (exn + proc) \<times> 'w"
  tree_at :: "'w \<Rightarrow> string \<Rightarrow> node"
  json_loads :: "string \<Rightarrow> exn + json"
  signal_name :: "nat \<Rightarrow> string option"

fun json_items :: "json \<Rightarrow> exn + (string \<times> json) list" where
  \<comment> \<open>\<^verbatim>\<open>x.items()\<close>\<close>
  "json_items (JObj kvs) = Inr kvs"
| "json_items v = Inl (Exn AttributeError
     ([CHR 0x27] @ type_name v @ ''' object has no attribute 'items'' @ [CHR 0x27]))"

fun rows :: "('a \<Rightarrow> exn + event list) \<Rightarrow> 'a list \<Rightarrow> event list \<times> exn option" where
  \<comment> \<open>a \<^verbatim>\<open>for\<close> loop whose body prints one row: what was printed, and the exception that
      ended the loop\<close>
  "rows body [] = ([], None)"
| "rows body (x # xs) =
     (case body x of
        Inl e \<Rightarrow> ([], Some e)
      | Inr evs \<Rightarrow> (case rows body xs of (evs', r) \<Rightarrow> (evs @ evs', r)))"

definition npm_row :: "string \<times> json \<Rightarrow> exn + event list" where
  "npm_row item =
     (let pkg = fst item; info = snd item in
      bind_exn (json_get info ''current'' (JStr ''N/A'')) (\<lambda>current.
      bind_exn (json_get info ''latest'' (JStr ''N/A'')) (\<lambda>latest.
      print_package_info (JStr pkg) current latest)))"

definition pip_row :: "json \<Rightarrow> exn + event list" where
  "pip_row pkg =
     bind_exn (json_getitem pkg ''name'') (\<lambda>name.
     bind_exn (json_getitem pkg ''version'') (\<lambda>current.
     bind_exn (json_getitem pkg ''latest_version'') (\<lambda>latest.
     print_package_info name current latest)))"

definition composer_row :: "json \<Rightarrow> exn + event list" where
  "composer_row pkg =
     bind_exn (json_get pkg ''name'' (JStr [])) (\<lambda>name.
     bind_exn (json_get pkg ''version'' (JStr [])) (\<lambda>current.
     bind_exn (json_get pkg ''latest'' (JStr [])) (\<lambda>latest.
     print_package_info name current latest)))"

definition after_stdout ::
  "'w env \<Rightarrow> string \<Rightarrow> (json \<Rightarrow> event list \<times> exn option) \<Rightarrow> event list \<times> exn option" where
  \<comment> \<open>\<^verbatim>\<open>if result.stdout.strip(): x = json.loads(result.stdout); ...\<close>\<close>
  "after_stdout env out k =
     (if py_strip out \<noteq> [] then
        (case json_loads env out of Inl e \<Rightarrow> ([], Some e) | Inr x \<Rightarrow> k x)
      else ([], None))"

definition npm_packages :: "json \<Rightarrow> event list \<times> exn option" where
  "npm_packages packages =
     (case json_items packages of Inl e \<Rightarrow> ([], Some e) | Inr items \<Rightarrow> rows npm_row items)"

definition pip_packages :: "json \<Rightarrow> event list \<times> exn option" where
  "pip_packages packages =
     (case json_iter packages of Inl e \<Rightarrow> ([], Some e) | Inr pkgs \<Rightarrow> rows pip_row pkgs)"

definition composer_packages :: "json \<Rightarrow> event list \<times> exn option" where
  "composer_packages data =
     (case bind_exn (json_get data ''installed'' (JArr [])) json_iter of
        Inl e \<Rightarrow> ([], Some e)
      | Inr pkgs \<Rightarrow> rows composer_row pkgs)"

definition run_then ::
  "'w env \<Rightarrow> 'w \<Rightarrow> string list \<Rightarrow> string option \<Rightarrow> (proc \<Rightarrow> event list \<times> exn option) \<Rightarrow>
   event list \<times> 'w \<times> exn option" where
  \<comment> \<open>one \<^verbatim>\<open>subprocess.run\<close> and what follows it inside the same \<^verbatim>\<open>try\<close>\<close>
  "run_then env w cmd cwd k =
     (case run env w cmd cwd of
        (Inl e, w') \<Rightarrow> ([Call cmd cwd], w', Some e)
      | (Inr p, w') \<Rightarrow> (case k p of (evs, r) \<Rightarrow> (Call cmd cwd # evs, w', r)))"

definition section_header :: "string \<Rightarrow> string" where
  "section_header manager = [CHR 0x0A] @ ''=== '' @ py_upper manager @ '' Dependencies ===''"

definition manager_branch ::
  "'w env \<Rightarrow> 'w \<Rightarrow> string \<Rightarrow> string \<times> string \<Rightarrow> event list \<times> 'w \<times> exn option" where
  \<comment> \<open>the \<^verbatim>\<open>if\<close> chain on the manager: a manager other than the three has no branch\<close>
  "manager_branch env w temp_dir item =
     (let manager = fst item; file_path = snd item in
      if manager = ''npm'' then
        run_then env w [''npm'', ''outdated'', ''--json''] (Some temp_dir)
          (\<lambda>result. after_stdout env (stdout result) npm_packages)
      else if manager = ''pip'' then
        (case run env w [''pip'', ''install'', ''-r'', file_path] None of
           (Inl e, w') \<Rightarrow> ([Call [''pip'', ''install'', ''-r'', file_path] None], w', Some e)
         | (Inr _, w') \<Rightarrow>
             (case run_then env w' [''pip'', ''list'', ''--outdated'', ''--format=json''] None
                     (\<lambda>result. after_stdout env (stdout result) pip_packages) of
                (evs, w'', r) \<Rightarrow>
                  (Call [''pip'', ''install'', ''-r'', file_path] None # evs, w'', r)))
      else if manager = ''composer'' then
        run_then env w [''composer'', ''outdated'', ''--direct'', ''--format=json'']
          (Some temp_dir) (\<lambda>result. after_stdout env (stdout result) composer_packages)
      else ([], w, None))"

definition check_manager_try ::
  "'w env \<Rightarrow> 'w \<Rightarrow> string \<Rightarrow> string \<times> string \<Rightarrow> event list \<times> 'w \<times> exn option" where
  \<comment> \<open>the \<^verbatim>\<open>try\<close> block of one turn of the loop: the two headers, then the branch\<close>
  "check_manager_try env w temp_dir item =
     (case manager_branch env w temp_dir item of
        (evs, w', r) \<Rightarrow>
          (Print (section_header (fst item)) # print_package_header @ evs, w', r))"

definition error_line :: "string \<Rightarrow> exn \<Rightarrow> string" where
  \<comment> \<open>the two \<^verbatim>\<open>except\<close> clauses\<close>
  "error_line manager e =
     (if exn_class_of e = CalledProcessError
      then [CHR 0x0A] @ ''Error checking '' @ manager @ '' packages: '' @ exn_str e
      else [CHR 0x0A] @ ''Unexpected error checking '' @ manager @ '' packages: '' @ exn_str e)"

definition check_manager ::
  "'w env \<Rightarrow> 'w \<Rightarrow> string \<Rightarrow> string \<times> string \<Rightarrow> event list \<times> 'w" where
  "check_manager env w temp_dir item =
     (case check_manager_try env w temp_dir item of
        (evs, w', None) \<Rightarrow> (evs, w')
      | (evs, w', Some e) \<Rightarrow> (evs @ [Print (error_line (fst item) e)], w'))"

fun check_outdated_packages ::
  "'w env \<Rightarrow> 'w \<Rightarrow> string \<Rightarrow> (string \<times> string) list \<Rightarrow> event list \<times> 'w" where
  "check_outdated_packages env w temp_dir [] = ([], w)"
| "check_outdated_packages env w temp_dir (item # package_managers) =
     (case check_manager env w temp_dir item of
        (evs, w') \<Rightarrow>
          (case check_outdated_packages env w' temp_dir package_managers of
             (evs', w'') \<Rightarrow> (evs @ evs', w'')))"

subsection \<open>\<^verbatim>\<open>clone_repo\<close>\<close>

definition called_process_error_str :: "(nat \<Rightarrow> string option) \<Rightarrow> string list \<Rightarrow> int \<Rightarrow> string" where
  \<comment> \<open>\<^verbatim>\<open>str\<close> of the \<^verbatim>\<open>CalledProcessError\<close> that \<^verbatim>\<open>check=True\<close> raises: the command and the
      exit status, or the signal that ended the process\<close>
  "called_process_error_str signals cmd code =
     (if code < 0 then
        (case signals (nat (- code)) of
           Some name \<Rightarrow> (''Command '' @ [CHR 0x27]) @ str_list cmd @ ''' died with <Signals.'' @ name @ '': '' @
             str_nat (nat (- code)) @ ''>.''
         | None \<Rightarrow> (''Command '' @ [CHR 0x27]) @ str_list cmd @ ''' died with unknown signal '' @
             str_nat (nat (- code)) @ ''.'')
      else (''Command '' @ [CHR 0x27]) @ str_list cmd @ ''' returned non-zero exit status '' @ str_int code @ ''.'')"

definition analyzing_line :: "string \<Rightarrow> string" where
  "analyzing_line repo_url =
     [CHR 0x0A, CHR 0xF0, CHR 0x9F, CHR 0x94, CHR 0x8D] @ '' Analyzing repository: '' @ repo_url"

definition clone_command :: "string \<Rightarrow> string \<Rightarrow> string list" where
  "clone_command repo_url temp_dir = [''git'', ''clone'', ''--depth'', ''1'', repo_url, temp_dir]"

definition clone_repo :: "'w env \<Rightarrow> 'w \<Rightarrow> string \<Rightarrow> string \<Rightarrow> event list \<times> 'w \<times> unit result" where
  "clone_repo env w repo_url temp_dir =
     (if \<not> which_git env w then
        ([Print ''Error: Git is not installed or not found in system PATH.'',
          Print (''Please install Git from https://git-scm.com/downloads and ensure it's added '' @
                 ''to your system PATH.'')], w, Exit 1)
      else
        (let cmd = clone_command repo_url temp_dir;
             start = [Print (analyzing_line repo_url), Call cmd None] in
         case run env w cmd None of
           (Inl e, w') \<Rightarrow>
             (if exn_class_of e = CalledProcessError
              then (start @ [Print (''Error cloning repository: '' @ exn_str e)], w', Exit 1)
              else (start, w', Raise e))
         | (Inr p, w') \<Rightarrow>
             (if returncode p \<noteq> 0
              then (start @ [Print (''Error cloning repository: '' @
                      called_process_error_str (signal_name env) cmd (returncode p))], w', Exit 1)
              else (start, w', Return ()))))"

subsection \<open>\<^verbatim>\<open>main\<close>\<close>

text \<open>
  \<^verbatim>\<open>argv\<close> is \<^verbatim>\<open>sys.argv\<close>, the name of the script first. The temporary directory is
  removed when the \<^verbatim>\<open>with\<close> block is left, on every path; the removal is not an event of
  the model. The source file ends, after the call of \<^verbatim>\<open>main\<close>, with a stray copy of
  three lines of \<^verbatim>\<open>main\<close>; it belongs to no function and is not modelled.
\<close>

definition basename :: "string \<Rightarrow> string" where
  \<comment> \<open>\<^verbatim>\<open>posixpath.basename\<close>: what follows the last slash\<close>
  "basename p = rev (takeWhile (\<lambda>c. c \<noteq> CHR ''/'') (rev p))"

definition usage_lines :: "event list" where
  "usage_lines =
     [Print ''Usage: python check_outdated.py <GitHub-repo-url>'',
      Print ''Example: python check_outdated.py https://github.com/username/repo'']"

definition no_files_line :: string where
  "no_files_line = [CHR 0x0A, CHR 0xE2, CHR 0x9A, CHR 0xA0, CHR 0xEF, CHR 0xB8, CHR 0x8F] @
     '' No recognized dependency files found in the repository.''"

definition found_lines :: "(string \<times> string) list \<Rightarrow> event list" where
  "found_lines package_managers =
     Print ([CHR 0x0A, CHR 0xF0, CHR 0x9F, CHR 0x93, CHR 0xA6] @
            '' Found the following package managers:'') #
     map (\<lambda>item. Print (''  - '' @ py_upper (fst item) @ '': '' @ basename (snd item)))
       package_managers"

definition analysis_error_line :: "exn \<Rightarrow> string" where
  "analysis_error_line e =
     [CHR 0x0A, CHR 0xE2, CHR 0x9D, CHR 0x8C] @ '' Error analyzing repository: '' @ exn_str e"

definition main :: "'w env \<Rightarrow> 'w \<Rightarrow> string list \<Rightarrow> event list \<times> 'w \<times> unit result" where
  "main env w argv =
     (if length argv \<noteq> 2 then (usage_lines, w, Exit 1)
      else
        (let repo_url = argv ! 1 in
         case validate_github_url (urlparse_path env) repo_url of
           (evs0, Exit n) \<Rightarrow> (evs0, w, Exit n)
         | (evs0, Raise e) \<Rightarrow> (evs0, w, Raise e)
         | (evs0, Return owner_repo) \<Rightarrow>
             (case mkdtemp env w of (temp_dir, w0) \<Rightarrow>
                (case clone_repo env w0 repo_url temp_dir of
                   (evs1, w1, Exit n) \<Rightarrow> (evs0 @ evs1, w1, Exit n)
                 | (evs1, w1, Raise e) \<Rightarrow>
                     (evs0 @ evs1 @ [Print (analysis_error_line e)], w1, Exit 1)
                 | (evs1, w1, Return u) \<Rightarrow>
                     (let package_managers =
                            detect_package_managers temp_dir (tree_at env w1 temp_dir) in
                      if package_managers = [] then
                        (evs0 @ evs1 @ [Scan temp_dir, Print no_files_line], w1, Exit 0)
                      else
                        (case check_outdated_packages env w1 temp_dir package_managers of
                           (evs2, w2) \<Rightarrow>
                             (evs0 @ evs1 @ [Scan temp_dir] @ found_lines package_managers @ evs2,
                              w2, Return ())))))))"

fun print_text :: "event \<Rightarrow> string" where
  "print_text (Print s) = s @ [CHR 0x0A]"
| "print_text ev = []"

definition printed :: "event list \<Rightarrow> string" where
  \<comment> \<open>everything a run writes to its standard output\<close>
  "printed evs = concat (map print_text evs)"

section \<open>A concrete environment for the examples\<close>

text \<open>
  The world of the examples is the journal of the commands run so far. Cloning
  \<^verbatim>\<open>https://github.com/missing/repo\<close> fails with status 128; \<^verbatim>\<open>npm\<close> is not installed;
  \<^verbatim>\<open>pip list\<close> reports one outdated package; \<^verbatim>\<open>composer\<close> ends with status 1, a message on
  its standard error and nothing on its standard output. Of the requirements files, one holds a pinned
  requirement with an environment marker, and \<^verbatim>\<open>/dev/stdin\<close> is a pipe whose writer sends one
  good line and then bytes that are not UTF-8.
\<close>

type_synonym journal = "string list list"

definition demo_urlparse :: "string \<Rightarrow> exn + string" where
  \<comment> \<open>\<^verbatim>\<open>urlparse(url).path\<close> for \<^verbatim>\<open>https://github.com\<close> followed by a path without query,
      parameters or fragment\<close>
  "demo_urlparse url = Inr (drop (length ''https://github.com'') url)"

definition demo_pip_stdout :: string where
  \<open>demo_pip_stdout =
     ''[{"name": "requests", "version": "2.0.0", "latest_version": "2.1.0"}]''\<close>

definition demo_run :: "journal \<Rightarrow> string list \<Rightarrow> string option \<Rightarrow> (exn + proc) \<times> journal" where
  "demo_run w cmd cwd =
     (if take 2 cmd = [''git'', ''clone''] then
        (if ''https://github.com/missing/repo'' \<in> set cmd
         then Inr \<lparr>returncode = 128, stdout = [], stderr = ''fatal: repository not found''\<rparr>
         else Inr \<lparr>returncode = 0, stdout = [], stderr = []\<rparr>)
      else if take 1 cmd = [''npm''] then
        Inl (Exn OSError (''[Errno 2] No such file or directory: 'npm'' @ [CHR 0x27]))
      else if take 2 cmd = [''pip'', ''list''] then
        Inr \<lparr>returncode = 0, stdout = demo_pip_stdout, stderr = []\<rparr>
      else if take 1 cmd = [''composer''] then
        Inr \<lparr>returncode = 1, stdout = [],
             stderr = ''The lock file is not up to date with the latest changes in composer.json.''\<rparr>
      else Inr \<lparr>returncode = 0, stdout = [], stderr = []\<rparr>,
      w @ [cmd])"

definition demo_json_loads :: "string \<Rightarrow> exn + json" where
  "demo_json_loads text =
     (if text = demo_pip_stdout then
        Inr (JArr [JObj [(''name'', JStr ''requests''), (''version'', JStr ''2.0.0''),
                         (''latest_version'', JStr ''2.1.0'')]])
      else Inl (Exn JSONDecodeError ''Expecting value: line 1 column 1 (char 0)''))"

definition demo_tree :: "journal \<Rightarrow> string \<Rightarrow> node" where
  "demo_tree w d =
     (if clone_command ''https://github.com/octocat/hello'' d \<in> set w then
        Dir [(''README.md'', File), (''package.json'', File), (''requirements.txt'', File)]
      else if clone_command ''https://github.com/octocat/plain'' d \<in> set w then
        Dir [(''README.md'', File), (''docs'', Dir [(''package.json'', File)])]
      else Dir [])"

definition demo_read_json :: "string \<Rightarrow> exn + json" where
  "demo_read_json path =
     (if path = ''package.json'' then
        Inr (JObj [(''dependencies'', JObj [(''a'', JStr ''1.0'')]),
                   (''devDependencies'', JObj [(''a'', JStr ''2.0'')])])
      else if path = ''nodev/package.json'' then
        Inr (JObj [(''dependencies'', JObj [(''a'', JStr ''1.0'')]), (''devDependencies'', JNull)])
      else Inl (Exn OSError (''[Errno 2] No such file or directory: '' @ py_repr path)))"

definition demo_open_lines :: "string \<Rightarrow> exn + string list \<times> exn option" where
  \<open>demo_open_lines path =
     (if path = ''requirements.txt'' then
        Inr ([''requests==2.31.0'' @ [CHR 0x0A], ''# web'' @ [CHR 0x0A], [CHR 0x0A],
              ''  flask>=2.0  '' @ [CHR 0x0A], ''six''], None)
      else if path = ''/dev/stdin'' then
        Inr ([''requests==2.31.0'' @ [CHR 0x0A]],
             Some (Exn UnicodeDecodeError
               ('''utf-8' codec can't decode byte 0xe9 in position 24: invalid continuation byte'')))
      else if path = ''markers/requirements.txt'' then
        Inr ([''six'' @ [CHR 0x0A],
              ''requests==2.31.0; python_version=="3.8"'' @ [CHR 0x0A],
              ''flask>=2.0'' @ [CHR 0x0A]], None)
      else Inl (Exn OSError (''[Errno 2] No such file or directory: '' @ py_repr path)))\<close>

definition demo_env :: "journal env" where
  "demo_env =
     \<lparr>urlparse_path = demo_urlparse,
      mkdtemp = (\<lambda>w. (''/tmp/tmpab12'', w)),
      which_git = (\<lambda>w. True),
      run = demo_run,
      tree_at = demo_tree,
      json_loads = demo_json_loads,
      signal_name = (\<lambda>n. if n = 9 then Some ''SIGKILL'' else None)\<rparr>"

section \<open>Properties of the string operations\<close>

lemma py_split_not_Nil: "py_split sep s \<noteq> []"
  by (induction s) (auto split: list.splits)

lemma hd_py_split_char: "hd (py_split [c] s) = takeWhile (\<lambda>x. x \<noteq> c) s"
  by (induction s) (auto simp: py_split_not_Nil split: list.splits)

lemma py_split_char_snoc_sep: "py_split [c] (s @ [c]) = py_split [c] s @ [[]]"
  by (induction s) (auto simp: py_split_not_Nil split: list.splits)

lemma py_split_char_snoc_other:
  "x \<noteq> c \<Longrightarrow> py_split [c] (s @ [x]) = butlast (py_split [c] s) @ [last (py_split [c] s) @ [x]]"
  using py_split_not_Nil [of "[c]"] by (induction s) (auto split: list.splits)

lemma last_py_split_char: "last (py_split [c] s) = rev (takeWhile (\<lambda>x. x \<noteq> c) (rev s))"
proof (induction s rule: rev_induct)
  case Nil
  show ?case by simp
next
  case (snoc x xs)
  show ?case
  proof (cases "x = c")
    case True
    then show ?thesis by (simp add: py_split_char_snoc_sep)
  next
    case False
    then show ?thesis using snoc by (simp add: py_split_char_snoc_other)
  qed
qed

lemma nonempty_dropWhile:
  "filter (\<lambda>seg. seg \<noteq> []) (py_split [c] (dropWhile (\<lambda>x. x = c) s)) =
   filter (\<lambda>seg. seg \<noteq> []) (py_split [c] s)"
  by (induction s) (auto split: list.splits)

lemma nonempty_drop_trailing:
  "filter (\<lambda>seg. seg \<noteq> []) (py_split [c] (rev (dropWhile (\<lambda>x. x = c) (rev s)))) =
   filter (\<lambda>seg. seg \<noteq> []) (py_split [c] s)"
proof (induction s rule: rev_induct)
  case Nil
  show ?case by simp
next
  case (snoc x xs)
  then show ?case by (cases "x = c") (simp_all add: py_split_char_snoc_sep)
qed

lemma nonempty_segments_strip:
  "filter (\<lambda>seg. seg \<noteq> []) (py_split ''/'' (py_strip_chars ''/'' path)) = nonempty_segments path"
  by (simp add: py_strip_chars_def strip_by_def nonempty_segments_def
      nonempty_drop_trailing nonempty_dropWhile)

lemma strip_by_ends:
  assumes "strip_by p s \<noteq> []"
  shows "\<not> p (hd (strip_by p s))" and "\<not> p (last (strip_by p s))"
proof -
  let ?t = "dropWhile p s"
  let ?u = "dropWhile p (rev ?t)"
  from assms have u: "?u \<noteq> []" by (simp add: strip_by_def)
  then have "\<not> p (hd ?u)" by (metis hd_dropWhile)
  then show "\<not> p (last (strip_by p s))" using u by (simp add: strip_by_def last_rev)
  from u have t: "?t \<noteq> []" by (metis dropWhile.simps(1) rev.simps(1))
  then have ht: "\<not> p (hd ?t)" by (metis hd_dropWhile)
  obtain ys where "rev ?t = ys @ ?u" by (metis takeWhile_dropWhile_id)
  then have "?t = rev ?u @ rev ys" by (metis rev_append rev_rev_ident)
  then have "hd ?t = hd (rev ?u)" using u by (metis hd_append2 rev_is_Nil_conv)
  then show "\<not> p (hd (strip_by p s))" using ht by (simp add: strip_by_def)
qed

lemma stripped_parts_ends:
  assumes "2 \<le> length (py_split ''/'' (py_strip_chars ''/'' path))"
  shows "hd (py_split ''/'' (py_strip_chars ''/'' path)) \<noteq> []"
    and "last (py_split ''/'' (py_strip_chars ''/'' path)) \<noteq> []"
proof -
  let ?s = "py_strip_chars ''/'' path"
  have ne: "?s \<noteq> []" using assms by auto
  then have "hd ?s \<noteq> CHR ''/''" and "last ?s \<noteq> CHR ''/''"
    using strip_by_ends [of "\<lambda>c. c \<in> set ''/''" path] by (simp_all add: py_strip_chars_def)
  with ne show "hd (py_split ''/'' ?s) \<noteq> []" and "last (py_split ''/'' ?s) \<noteq> []"
    by (simp_all add: hd_py_split_char last_py_split_char takeWhile_eq_Nil_iff hd_rev)
qed

lemma parts_and_segments:
  assumes "2 \<le> length (py_split ''/'' (py_strip_chars ''/'' path))"
  shows "2 \<le> length (nonempty_segments path)"
    and "py_split ''/'' (py_strip_chars ''/'' path) ! 0 = nonempty_segments path ! 0"
    and "py_split ''/'' (py_strip_chars ''/'' path) ! 1 = nonempty_segments path ! 1 \<or>
         py_split ''/'' (py_strip_chars ''/'' path) ! 1 = []"
proof -
  let ?parts = "py_split ''/'' (py_strip_chars ''/'' path)"
  obtain p q rest where parts: "?parts = p # q # rest"
    using assms by (cases ?parts; cases "tl ?parts") auto
  have p: "p \<noteq> []" using stripped_parts_ends(1) [OF assms] parts by simp
  have "last (q # rest) \<noteq> []" using stripped_parts_ends(2) [OF assms] parts by simp
  moreover have "last (q # rest) \<in> set (q # rest)" by (rule last_in_set) simp
  ultimately have ne: "filter (\<lambda>seg. seg \<noteq> []) (q # rest) \<noteq> []"
    by (metis (mono_tags, lifting) filter_empty_conv)
  have segs: "nonempty_segments path = p # filter (\<lambda>seg. seg \<noteq> []) (q # rest)"
    using nonempty_segments_strip [of path] parts p by simp
  show "2 \<le> length (nonempty_segments path)"
    using ne segs by (cases "filter (\<lambda>seg. seg \<noteq> []) (q # rest)") auto
  show "?parts ! 0 = nonempty_segments path ! 0" using segs parts by simp
  show "?parts ! 1 = nonempty_segments path ! 1 \<or> ?parts ! 1 = []"
    using segs parts by (cases "q = []") auto
qed

lemma segments_le_parts:
  "length (nonempty_segments path) \<le> length (py_split ''/'' (py_strip_chars ''/'' path))"
  using length_filter_le [of "\<lambda>seg. seg \<noteq> []" "py_split ''/'' (py_strip_chars ''/'' path)"]
  by (simp add: nonempty_segments_strip)

section \<open>The URL parser\<close>

text \<open>
  C1 (as amended). When the path of the URL has at least two non-empty segments,
  \<^verbatim>\<open>validate_github_url\<close> prints nothing and returns the first non-empty segment as the owner,
  which is never empty, and as the repository the piece that follows the owner's slash: this
  is the second non-empty segment, or the empty string when the owner is followed by two
  slashes. When the path has fewer than two non-empty segments the function prints the error
  and leaves with code 1, and \<^verbatim>\<open>main\<close> ends there: nothing but that line is printed, no
  subprocess is started and the world is unchanged.
\<close>

theorem validate_github_url_first_two:
  assumes "urlparse_path env url = Inr path"
  shows "(2 \<le> length (nonempty_segments path) \<longrightarrow>
            validate_github_url (urlparse_path env) url =
              ([], Return (nonempty_segments path ! 0,
                           py_split ''/'' (py_strip_chars ''/'' path) ! 1)) \<and>
            nonempty_segments path ! 0 \<noteq> [] \<and>
            (py_split ''/'' (py_strip_chars ''/'' path) ! 1 = nonempty_segments path ! 1 \<or>
             py_split ''/'' (py_strip_chars ''/'' path) ! 1 = [])) \<and>
         (length (nonempty_segments path) < 2 \<longrightarrow>
            validate_github_url (urlparse_path env) url =
              ([Print ''Error parsing GitHub URL: Invalid GitHub repository URL format''], Exit 1) \<and>
            main env w [prog, url] =
              ([Print ''Error parsing GitHub URL: Invalid GitHub repository URL format''], w, Exit 1))"
proof (intro conjI impI)
  let ?parts = "py_split ''/'' (py_strip_chars ''/'' path)"
  assume two: "2 \<le> length (nonempty_segments path)"
  then have len: "2 \<le> length ?parts" using segments_le_parts [of path] by simp
  from parts_and_segments [OF len]
  show "validate_github_url (urlparse_path env) url =
          ([], Return (nonempty_segments path ! 0, ?parts ! 1))"
    using assms len by (simp add: validate_github_url_def validate_github_url_try_def bind_exn_def)
  have "nonempty_segments path ! 0 \<in> set (nonempty_segments path)"
    using two by (intro nth_mem) auto
  then show "nonempty_segments path ! 0 \<noteq> []" by (simp add: nonempty_segments_def)
  show "?parts ! 1 = nonempty_segments path ! 1 \<or> ?parts ! 1 = []"
    by (rule parts_and_segments(3) [OF len])
next
  let ?parts = "py_split ''/'' (py_strip_chars ''/'' path)"
  assume few: "length (nonempty_segments path) < 2"
  then have len: "length ?parts < 2" using parts_and_segments(1) [of path] by force
  then show v: "validate_github_url (urlparse_path env) url =
      ([Print ''Error parsing GitHub URL: Invalid GitHub repository URL format''], Exit 1)"
    using assms by (simp add: validate_github_url_def validate_github_url_try_def bind_exn_def)
  show "main env w [prog, url] =
      ([Print ''Error parsing GitHub URL: Invalid GitHub repository URL format''], w, Exit 1)"
    by (simp add: main_def v)
qed

text \<open>
  The theorem at \<^verbatim>\<open>https://github.com/octocat/hello/tree/main\<close>, which has four segments, and
  at \<^verbatim>\<open>https://github.com/octocat/\<close>, which has one.
\<close>

theorem validate_github_url_first_two_witness:
  "urlparse_path demo_env ''https://github.com/octocat/hello/tree/main'' =
     Inr ''/octocat/hello/tree/main'' \<and>
   2 \<le> length (nonempty_segments ''/octocat/hello/tree/main'') \<and>
   validate_github_url (urlparse_path demo_env) ''https://github.com/octocat/hello/tree/main'' =
     ([], Return (''octocat'', ''hello'')) \<and>
   urlparse_path demo_env ''https://github.com/octocat/'' = Inr ''/octocat/'' \<and>
   length (nonempty_segments ''/octocat/'') < 2 \<and>
   main demo_env [] [''app.py'', ''https://github.com/octocat/''] =
     ([Print ''Error parsing GitHub URL: Invalid GitHub repository URL format''], [], Exit 1)"
proof -
  have p1: "urlparse_path demo_env ''https://github.com/octocat/hello/tree/main'' =
      Inr ''/octocat/hello/tree/main''"
    by (simp add: demo_env_def demo_urlparse_def)
  have s1: "nonempty_segments ''/octocat/hello/tree/main'' = [''octocat'', ''hello'', ''tree'', ''main'']"
    by code_simp
  have q1: "py_split ''/'' (py_strip_chars ''/'' ''/octocat/hello/tree/main'') ! Suc 0 = ''hello''"
    by code_simp
  have p2: "urlparse_path demo_env ''https://github.com/octocat/'' = Inr ''/octocat/''"
    by (simp add: demo_env_def demo_urlparse_def)
  have s2: "nonempty_segments ''/octocat/'' = [''octocat'']"
    by code_simp
  show ?thesis
    using validate_github_url_first_two [OF p1] validate_github_url_first_two [OF p2, of "[]" "''app.py''"]
    by (simp add: p1 p2 s1 s2 q1)
qed

text \<open>
  C1 as stated fails: the path \<^verbatim>\<open>/a//b\<close> has the two non-empty segments \<^verbatim>\<open>a\<close> and \<^verbatim>\<open>b\<close>,
  and the function returns the owner \<^verbatim>\<open>a\<close> with an empty repository, since \<^verbatim>\<open>split\<close> keeps
  the empty piece between the two slashes.
\<close>

theorem validate_github_url_counterexample:
  "urlparse_path demo_env ''https://github.com/a//b'' = Inr ''/a//b'' \<and>
   nonempty_segments ''/a//b'' = [''a'', ''b''] \<and>
   validate_github_url (urlparse_path demo_env) ''https://github.com/a//b'' =
     ([], Return (''a'', ''''))"
  by (simp add: demo_env_def demo_urlparse_def nonempty_segments_def validate_github_url_def
      validate_github_url_try_def bind_exn_def py_strip_chars_def strip_by_def)

section \<open>The manager detector\<close>

lemma rglob_empty_iff: "(rglob pat path n = []) = (\<not> has_match pat n)"
proof (induction pat path n rule: rglob.induct)
  case (1 pat path es)
  then show ?case by (auto simp: list_ex_iff filter_empty_conv)
qed simp_all

lemma dict_set_fresh: "k \<notin> fst ` set d \<Longrightarrow> dict_set d k v = d @ [(k, v)]"
  by (induction d) auto

lemma detect_step_fresh:
  "snd entry \<notin> fst ` set found \<Longrightarrow>
   detect_step temp_dir root entry found = found @ detected temp_dir root entry"
  by (simp add: detect_step_def detected_def marker_present_def trigger_path_def Let_def
      dict_set_fresh rglob_empty_iff)

lemma keys_detected:
  "map fst (concat (map (detected temp_dir root) tbl)) =
   map snd (filter (\<lambda>entry. marker_present root (fst entry)) tbl)"
  by (induction tbl) (simp_all add: detected_def)

lemma fold_detect_step:
  "distinct (map snd tbl) \<Longrightarrow> fst ` set found \<inter> snd ` set tbl = {} \<Longrightarrow>
   fold (detect_step temp_dir root) tbl found = found @ concat (map (detected temp_dir root) tbl)"
proof (induction tbl arbitrary: found)
  case Nil
  show ?case by simp
next
  case (Cons entry tbl)
  have fresh: "snd entry \<notin> fst ` set found" using Cons.prems(2) by auto
  have notin: "snd entry \<notin> snd ` set tbl" using Cons.prems(1) by simp
  have rest: "fst ` set found \<inter> snd ` set tbl = {}" using Cons.prems(2) by auto
  have "detected temp_dir root entry = [] \<or>
      detected temp_dir root entry = [(snd entry, trigger_path temp_dir root (fst entry))]"
    by (simp add: detected_def)
  then have "fst ` set (found @ detected temp_dir root entry) \<inter> snd ` set tbl = {}"
  proof
    assume "detected temp_dir root entry = []"
    then show ?thesis using rest by simp
  next
    assume "detected temp_dir root entry = [(snd entry, trigger_path temp_dir root (fst entry))]"
    then show ?thesis using rest notin by simp
  qed
  with Cons.IH [of "found @ detected temp_dir root entry"] Cons.prems(1) fresh
  show ?case by (simp add: detect_step_fresh)
qed

lemma distinct_managers: "distinct (map snd package_files)"
  by (simp add: package_files_def)

lemma detect_package_managers_eq:
  "detect_package_managers temp_dir root = concat (map (detected temp_dir root) package_files)"
  using fold_detect_step [OF distinct_managers, of "[]" temp_dir root]
  by (simp add: detect_package_managers_def)

lemma keys_detected_table:
  "fst ` set (concat (map (detected temp_dir root) tbl)) =
   {m. \<exists>marker. (marker, m) \<in> set tbl \<and> marker_present root marker}"
proof -
  have "fst ` set (concat (map (detected temp_dir root) tbl)) =
      set (map fst (concat (map (detected temp_dir root) tbl)))"
    by (simp only: set_map)
  also have "\<dots> = snd ` {entry \<in> set tbl. marker_present root (fst entry)}"
    by (simp only: keys_detected set_map set_filter)
  also have "\<dots> = {m. \<exists>marker. (marker, m) \<in> set tbl \<and> marker_present root marker}"
    by force
  finally show ?thesis .
qed

lemma detected_pair:
  "detected temp_dir root (marker, m) =
     (if marker_present root marker then [(m, trigger_path temp_dir root marker)] else [])"
  by (simp add: detected_def)

lemma map_of_detected_table:
  "distinct (map snd tbl) \<Longrightarrow> (marker, m) \<in> set tbl \<Longrightarrow>
   map_of (concat (map (detected temp_dir root) tbl)) m =
     (if marker_present root marker then Some (trigger_path temp_dir root marker) else None)"
proof (induction tbl)
  case Nil
  then show ?case by simp
next
  case (Cons entry tbl)
  show ?case
  proof (cases "entry = (marker, m)")
    case True
    have "m \<notin> fst ` set (concat (map (detected temp_dir root) tbl))"
      using Cons.prems(1) True by (auto simp only: keys_detected_table) force
    then have "map_of (concat (map (detected temp_dir root) tbl)) m = None"
      by (simp add: map_of_eq_None_iff)
    then show ?thesis using True by (simp add: detected_pair)
  next
    case False
    then have mem: "(marker, m) \<in> set tbl" using Cons.prems(2) by simp
    then have "m \<in> snd ` set tbl" by force
    then have "snd entry \<noteq> m" using Cons.prems(1) by auto
    then show ?thesis using Cons.IH Cons.prems(1) mem
      by (cases entry) (simp add: detected_pair)
  qed
qed


text \<open>
  C2. The keys of the map that \<^verbatim>\<open>detect_package_managers\<close> returns are exactly the managers of
  the ten-row table whose marker is present: a literal name as an entry of the root itself
  that \<^verbatim>\<open>os.path.exists\<close> finds, the pattern \<^verbatim>\<open>*.csproj\<close> as a name at any depth of the tree. Each such manager is mapped to the
  path of its file: the name joined to \<^verbatim>\<open>temp_dir\<close>, or the first match of the pattern. When
  \<^verbatim>\<open>package.json\<close> and \<^verbatim>\<open>requirements.txt\<close> are the only markers present, the map is
  \<^verbatim>\<open>npm\<close> and \<^verbatim>\<open>pip\<close> with their two paths and nothing else.
\<close>

theorem detect_package_managers_exact:
  "fst ` set (detect_package_managers temp_dir root) =
     {m. \<exists>marker. (marker, m) \<in> set package_files \<and> marker_present root marker} \<and>
   (\<forall>entry \<in> set package_files. marker_present root (fst entry) \<longrightarrow>
      map_of (detect_package_managers temp_dir root) (snd entry) =
        Some (trigger_path temp_dir root (fst entry))) \<and>
   (path_exists root ''package.json'' \<and> path_exists root ''requirements.txt'' \<and>
    (\<forall>entry \<in> set package_files.
       fst entry \<noteq> ''package.json'' \<and> fst entry \<noteq> ''requirements.txt'' \<longrightarrow>
       \<not> marker_present root (fst entry)) \<longrightarrow>
    detect_package_managers temp_dir root =
      [(''npm'', os_path_join temp_dir ''package.json''),
       (''pip'', os_path_join temp_dir ''requirements.txt'')])"
proof (intro conjI ballI impI)
  show "fst ` set (detect_package_managers temp_dir root) =
     {m. \<exists>marker. (marker, m) \<in> set package_files \<and> marker_present root marker}"
    by (simp only: detect_package_managers_eq keys_detected_table)
next
  fix entry
  assume "entry \<in> set package_files" and "marker_present root (fst entry)"
  then show "map_of (detect_package_managers temp_dir root) (snd entry) =
      Some (trigger_path temp_dir root (fst entry))"
    using map_of_detected_table [OF distinct_managers, of "fst entry" "snd entry" temp_dir root]
    by (simp add: detect_package_managers_eq)
next
  assume a: "path_exists root ''package.json'' \<and> path_exists root ''requirements.txt'' \<and>
    (\<forall>entry \<in> set package_files.
       fst entry \<noteq> ''package.json'' \<and> fst entry \<noteq> ''requirements.txt'' \<longrightarrow>
       \<not> marker_present root (fst entry))"
  then have others: "\<And>marker m. (marker, m) \<in> set package_files \<Longrightarrow>
      marker \<noteq> ''package.json'' \<Longrightarrow> marker \<noteq> ''requirements.txt'' \<Longrightarrow>
      \<not> marker_present root marker"
    by force
  have p1: "marker_present root ''package.json''" and p2: "marker_present root ''requirements.txt''"
    using a by (simp_all add: marker_present_def)
  have n: "\<not> marker_present root ''Pipfile''" "\<not> marker_present root ''composer.json''"
    "\<not> marker_present root ''pom.xml''" "\<not> marker_present root ''build.gradle''"
    "\<not> marker_present root ''Gemfile''" "\<not> marker_present root ''go.mod''"
    "\<not> marker_present root ''Cargo.toml''" "\<not> marker_present root ''*.csproj''"
    by (rule others; simp add: package_files_def)+
  have t1: "trigger_path temp_dir root ''package.json'' = os_path_join temp_dir ''package.json''"
    and t2: "trigger_path temp_dir root ''requirements.txt'' =
      os_path_join temp_dir ''requirements.txt''"
    by (simp_all add: trigger_path_def)
  have "concat (map (detected temp_dir root) package_files) =
      [(''npm'', os_path_join temp_dir ''package.json''),
       (''pip'', os_path_join temp_dir ''requirements.txt'')]"
    unfolding package_files_def
    by (simp only: list.map detected_pair p1 p2 n t1 t2 if_True if_False concat.simps
        append.simps)
  then show "detect_package_managers temp_dir root =
      [(''npm'', os_path_join temp_dir ''package.json''),
       (''pip'', os_path_join temp_dir ''requirements.txt'')]"
    by (simp only: detect_package_managers_eq)
qed


text \<open>
  The theorem on a tree that holds both files, and \<^verbatim>\<open>go.mod\<close> one level down, where it does
  not count.
\<close>

theorem detect_package_managers_exact_witness:
  "path_exists (Dir [(''README.md'', File), (''package.json'', File), (''requirements.txt'', File),
       (''docs'', Dir [(''go.mod'', File)])]) ''package.json'' \<and>
   detect_package_managers ''/tmp/tmpab12''
     (Dir [(''README.md'', File), (''package.json'', File), (''requirements.txt'', File),
       (''docs'', Dir [(''go.mod'', File)])]) =
     [(''npm'', ''/tmp/tmpab12/package.json''), (''pip'', ''/tmp/tmpab12/requirements.txt'')]"
proof -
  let ?root = "Dir [(''README.md'', File), (''package.json'', File), (''requirements.txt'', File),
       (''docs'', Dir [(''go.mod'', File)])]"
  have e1: "path_exists ?root ''package.json''" and e2: "path_exists ?root ''requirements.txt''"
    by (simp_all add: path_exists_def)
  have e3: "\<forall>entry \<in> set package_files.
       fst entry \<noteq> ''package.json'' \<and> fst entry \<noteq> ''requirements.txt'' \<longrightarrow>
       \<not> marker_present ?root (fst entry)"
    by (simp add: package_files_def marker_present_def path_exists_def)
  have j: "os_path_join ''/tmp/tmpab12'' ''package.json'' = ''/tmp/tmpab12/package.json''"
    "os_path_join ''/tmp/tmpab12'' ''requirements.txt'' = ''/tmp/tmpab12/requirements.txt''"
    by (simp_all add: os_path_join_def)
  show ?thesis
    using detect_package_managers_exact [of "''/tmp/tmpab12''" ?root] e1 e2 e3 by (simp only: j simp_thms)
qed

lemma glob_match_literal: "CHR ''*'' \<notin> set lit \<Longrightarrow> glob_match lit s = (s = lit)"
proof (induction lit arbitrary: s)
  case Nil
  show ?case by simp
next
  case (Cons p ps)
  then show ?case by (cases s) auto
qed

lemma glob_match_star_suffix:
  "CHR ''*'' \<notin> set lit \<Longrightarrow> glob_match (CHR ''*'' # lit) s = suffix lit s"
proof (induction s)
  case Nil
  then show ?case by (auto simp: glob_match_literal)
next
  case (Cons c cs)
  then show ?case by (auto simp: glob_match_literal suffix_Cons)
qed

lemma glob_match_csproj: "glob_match ''*.csproj'' name = suffix ''.csproj'' name"
  by (rule glob_match_star_suffix) simp

text \<open>
  C10 (as amended). Detection asks whether an entry exists, not what it is, and it asks as
  \<^verbatim>\<open>os.path.exists\<close> does, which follows links. For a literal marker of the table, an entry of
  that name directly under the root that is a file, a directory or a link whose target exists
  makes \<^verbatim>\<open>detect_package_managers\<close> record the manager with the path of that entry. When the
  root has no entry of that name, or only a dangling link, the manager is not recorded.
\<close>

theorem detect_by_existence:
  assumes "(name, manager) \<in> set package_files"
    and "CHR ''*'' \<notin> set name"
  shows "((name, entry) \<in> set (entries root) \<and> resolves entry \<longrightarrow>
           map_of (detect_package_managers temp_dir root) manager =
             Some (os_path_join temp_dir name)) \<and>
         ((\<forall>e \<in> set (entries root). fst e = name \<longrightarrow> \<not> resolves (snd e)) \<longrightarrow>
           map_of (detect_package_managers temp_dir root) manager = None)"
proof (intro conjI impI)
  have tp: "trigger_path temp_dir root name = os_path_join temp_dir name"
    using assms(2) by (simp add: trigger_path_def)
  have tbl: "map_of (detect_package_managers temp_dir root) manager =
      (if marker_present root name then Some (trigger_path temp_dir root name) else None)"
    using map_of_detected_table [OF distinct_managers assms(1), of temp_dir root]
    by (simp add: detect_package_managers_eq)
  {
    assume "(name, entry) \<in> set (entries root) \<and> resolves entry"
    then have "\<exists>e \<in> set (entries root). fst e = name \<and> resolves (snd e)" by force
    then have "marker_present root name"
      using assms(2) by (simp add: marker_present_def path_exists_def list_ex_iff)
    then show "map_of (detect_package_managers temp_dir root) manager =
        Some (os_path_join temp_dir name)"
      using tbl tp by simp
  }
  {
    assume "\<forall>e \<in> set (entries root). fst e = name \<longrightarrow> \<not> resolves (snd e)"
    then have "\<not> marker_present root name"
      using assms(2) by (auto simp: marker_present_def path_exists_def list_ex_iff)
    then show "map_of (detect_package_managers temp_dir root) manager = None"
      using tbl by simp
  }
qed

text \<open>
  The theorem on a tree whose \<^verbatim>\<open>package.json\<close> is a directory, and on a tree whose
  \<^verbatim>\<open>package.json\<close> is a dangling link.
\<close>

theorem detect_by_existence_witness:
  "(''package.json'', ''npm'') \<in> set package_files \<and> CHR ''*'' \<notin> set ''package.json'' \<and>
   (''package.json'', Dir [(''index.js'', File)]) \<in>
     set (entries (Dir [(''package.json'', Dir [(''index.js'', File)])])) \<and>
   resolves (Dir [(''index.js'', File)]) \<and>
   map_of (detect_package_managers ''/tmp/tmpab12'' (Dir [(''package.json'', Dir [(''index.js'', File)])]))
     ''npm'' = Some ''/tmp/tmpab12/package.json'' \<and>
   entries (Dir [(''package.json'', Symlink False)]) = [(''package.json'', Symlink False)] \<and>
   resolves (Symlink False) = False \<and>
   map_of (detect_package_managers ''/tmp/tmpab12'' (Dir [(''package.json'', Symlink False)]))
     ''npm'' = None"
proof -
  have a: "(''package.json'', ''npm'') \<in> set package_files" by (simp add: package_files_def)
  have b: "CHR ''*'' \<notin> set ''package.json''" by simp
  have c: "(''package.json'', Dir [(''index.js'', File)]) \<in>
     set (entries (Dir [(''package.json'', Dir [(''index.js'', File)])]))" by simp
  have r: "resolves (Dir [(''index.js'', File)])" by simp
  have d: "\<forall>e \<in> set (entries (Dir [(''package.json'', Symlink False)])).
      fst e = ''package.json'' \<longrightarrow> \<not> resolves (snd e)" by simp
  have j: "os_path_join ''/tmp/tmpab12'' ''package.json'' = ''/tmp/tmpab12/package.json''"
    by (simp add: os_path_join_def)
  have t1: "map_of (detect_package_managers ''/tmp/tmpab12''
      (Dir [(''package.json'', Dir [(''index.js'', File)])])) ''npm'' =
      Some (os_path_join ''/tmp/tmpab12'' ''package.json'')"
    using detect_by_existence [OF a b, of "Dir [(''index.js'', File)]"
        "Dir [(''package.json'', Dir [(''index.js'', File)])]" "''/tmp/tmpab12''"] c r
    by blast
  have t2: "map_of (detect_package_managers ''/tmp/tmpab12''
      (Dir [(''package.json'', Symlink False)])) ''npm'' = None"
    using detect_by_existence [OF a b, of _ "Dir [(''package.json'', Symlink False)]"
        "''/tmp/tmpab12''"] d
    by blast
  from t1 have t1': "map_of (detect_package_managers ''/tmp/tmpab12''
      (Dir [(''package.json'', Dir [(''index.js'', File)])])) ''npm'' =
      Some ''/tmp/tmpab12/package.json''"
    by (simp only: j)
  have d1: "entries (Dir [(''package.json'', Symlink False)]) = [(''package.json'', Symlink False)]"
    and d2: "resolves (Symlink False) = False"
    by simp_all
  show ?thesis
    by (rule conjI [OF a conjI [OF b conjI [OF c conjI [OF r conjI [OF t1'
          conjI [OF d1 conjI [OF d2 t2]]]]]]])
qed

text \<open>
  C10 as stated fails on a dangling link: a clone of a repository whose \<^verbatim>\<open>package.json\<close> is a
  link to a file that is not there has an entry of that name directly under the root, and
  nothing is detected.
\<close>

theorem detect_by_existence_counterexample:
  "(''package.json'', ''npm'') \<in> set package_files \<and>
   (''package.json'', Symlink False) \<in>
     set (entries (Dir [(''README.md'', File), (''package.json'', Symlink False)])) \<and>
   detect_package_managers ''/tmp/tmpab12''
     (Dir [(''README.md'', File), (''package.json'', Symlink False)]) = []"
  by (simp add: detect_package_managers_eq package_files_def detected_pair marker_present_def
      path_exists_def)

section \<open>The report printer\<close>

text \<open>
  C6. For strings \<^verbatim>\<open>name\<close>, \<^verbatim>\<open>current\<close> and \<^verbatim>\<open>latest\<close>, \<^verbatim>\<open>print_package_info\<close> prints one
  row: the name cut to its first 39 characters, each version with \<^verbatim>\<open>-\<close> in place of
  \<^verbatim>\<open>N/A\<close>, and the status \<^verbatim>\<open>Up to date\<close> exactly when \<^verbatim>\<open>current\<close> and \<^verbatim>\<open>latest\<close> are the same
  string, \<^verbatim>\<open>Update Available\<close> otherwise; the status is computed from the values as given,
  not from what is displayed.
\<close>

theorem print_package_info_row:
  "print_package_info (JStr name) (JStr current) (JStr latest) =
     Inr [Print (ljust 40 (take 39 name) @ '' '' @
          ljust 20 (if current = ''N/A'' then ''-'' else current) @ '' '' @
          ljust 20 (if latest = ''N/A'' then ''-'' else latest) @ '' '' @
          ljust 20 (if current = latest then ''Up to date'' else ''Update Available''))]
   \<and> length (take 39 name) \<le> 39"
  by (simp add: print_package_info_def format_row_def bind_exn_def)

text \<open>
  The theorem on the two rows of the specification, and on a package whose current version is
  not known and whose name has 45 characters.
\<close>

theorem print_package_info_row_witness:
  "print_package_info (JStr ''lodash'') (JStr ''1.0.0'') (JStr ''1.0.0'') =
     Inr [Print (ljust 40 ''lodash'' @ '' '' @ ljust 20 ''1.0.0'' @ '' '' @ ljust 20 ''1.0.0'' @
       '' '' @ ljust 20 ''Up to date'')] \<and>
   print_package_info (JStr ''lodash'') (JStr ''1.0.0'') (JStr ''2.0.0'') =
     Inr [Print (ljust 40 ''lodash'' @ '' '' @ ljust 20 ''1.0.0'' @ '' '' @ ljust 20 ''2.0.0'' @
       '' '' @ ljust 20 ''Update Available'')] \<and>
   print_package_info (JStr ''a-package-with-a-name-of-forty-five-character'') (JStr ''N/A'')
       (JStr ''3.1'') =
     Inr [Print (ljust 40 ''a-package-with-a-name-of-forty-five-cha'' @ '' '' @ ljust 20 ''-'' @
       '' '' @ ljust 20 ''3.1'' @ '' '' @ ljust 20 ''Update Available'')]"
  using print_package_info_row [of "''lodash''" "''1.0.0''" "''1.0.0''"]
    print_package_info_row [of "''lodash''" "''1.0.0''" "''2.0.0''"]
    print_package_info_row [of "''a-package-with-a-name-of-forty-five-character''" "''N/A''" "''3.1''"]
  by simp

section \<open>The dependency parsers\<close>

lemma py_eq_JStr: "py_eq x (JStr k) = (x = JStr k)"
  by (cases x) simp_all

lemma dict_lookup_setitem:
  "dict_lookup (dict_setitem d (JStr k') v) (JStr k) =
     (if k = k' then Some v else dict_lookup d (JStr k))"
  by (induction d) (auto simp: py_eq_JStr)

lemma keys_dict_setitem:
  "fst ` set (dict_setitem d (JStr k) v) = insert (JStr k) (fst ` set d)"
  by (induction d) (force simp: py_eq_JStr)+

lemma dict_lookup_merge:
  "dict_lookup (fold (\<lambda>kv acc. dict_setitem acc (JStr (fst kv)) (snd kv)) kvs d) (JStr k) =
     (case map_of (rev kvs) k of Some v \<Rightarrow> Some v | None \<Rightarrow> dict_lookup d (JStr k))"
proof (induction kvs arbitrary: d)
  case Nil
  show ?case by simp
next
  case (Cons kv kvs)
  show ?case
    by (cases "map_of (rev kvs) k") (simp_all add: Cons.IH dict_lookup_setitem map_add_def)
qed

lemma keys_merge:
  "fst ` set (fold (\<lambda>kv acc. dict_setitem acc (JStr (fst kv)) (snd kv)) kvs d) =
     fst ` set d \<union> JStr ` fst ` set kvs"
  by (induction kvs arbitrary: d) (auto simp: keys_dict_setitem)

lemma map_of_rev_distinct: "distinct (map fst xs) \<Longrightarrow> map_of (rev xs) = map_of xs"
proof (induction xs)
  case Nil
  show ?case by simp
next
  case (Cons x xs)
  then have "fst x \<notin> dom (map_of xs)" by (simp add: dom_map_of_conv_image_fst)
  then have "map_of xs (fst x) = None" by auto
  then show ?case using Cons by (auto simp: map_add_def fun_eq_iff split: option.splits)
qed

lemma member_object_get:
  "member_object doc k = Some kvs \<Longrightarrow> json_get (JObj doc) k (JObj []) = Inr (JObj kvs)"
  by (auto simp: member_object_def split: option.splits json.splits)

text \<open>
  C3 (as amended). For a loaded document that is an object whose members \<^verbatim>\<open>dependencies\<close> and
  \<^verbatim>\<open>devDependencies\<close> are each absent or an object, \<^verbatim>\<open>parse_npm_dependencies\<close> prints nothing and
  returns the merge of the two: a name is looked up in \<^verbatim>\<open>devDependencies\<close> first and in
  \<^verbatim>\<open>dependencies\<close> otherwise, and the keys are the names of both.
\<close>

theorem parse_npm_dependencies_merge:
  assumes "read_json path = Inr (JObj doc)"
    and "member_object doc ''dependencies'' = Some a"
    and "member_object doc ''devDependencies'' = Some b"
    and "distinct (map fst a)" and "distinct (map fst b)"
  shows "\<exists>deps. parse_npm_dependencies read_json path = ([], Return deps) \<and>
           (\<forall>k. dict_lookup deps (JStr k) =
              (case map_of b k of Some v \<Rightarrow> Some v | None \<Rightarrow> map_of a k)) \<and>
           fst ` set deps = JStr ` (fst ` set a \<union> fst ` set b)"
proof -
  let ?put = "\<lambda>kv acc. dict_setitem acc (JStr (fst kv)) (snd kv)"
  let ?deps = "fold ?put b (fold ?put a [])"
  have run: "parse_npm_dependencies read_json path = ([], Return ?deps)"
    using assms(1) member_object_get [OF assms(2)] member_object_get [OF assms(3)]
    by (simp add: parse_npm_dependencies_def parse_npm_dependencies_try_def bind_exn_def)
  have look: "dict_lookup ?deps (JStr k) =
      (case map_of b k of Some v \<Rightarrow> Some v | None \<Rightarrow> map_of a k)" for k
  proof -
    have "dict_lookup (fold ?put a []) (JStr k) = map_of a k"
      by (simp add: dict_lookup_merge map_of_rev_distinct assms(4) split: option.splits)
    then show ?thesis
      by (simp add: dict_lookup_merge [of b] map_of_rev_distinct assms(5) split: option.splits)
  qed
  have keys: "fst ` set ?deps = JStr ` (fst ` set a \<union> fst ` set b)"
    by (simp add: keys_merge image_Un Un_commute)
  from run look keys show ?thesis by blast
qed

text \<open>
  The theorem on the document of the specification, where the name \<^verbatim>\<open>a\<close> is in both groups: the
  result maps \<^verbatim>\<open>a\<close> to the version that \<^verbatim>\<open>devDependencies\<close> gives.
\<close>

theorem parse_npm_dependencies_merge_witness:
  "demo_read_json ''package.json'' =
     Inr (JObj [(''dependencies'', JObj [(''a'', JStr ''1.0'')]),
                (''devDependencies'', JObj [(''a'', JStr ''2.0'')])]) \<and>
   parse_npm_dependencies demo_read_json ''package.json'' = ([], Return [(JStr ''a'', JStr ''2.0'')]) \<and>
   (\<exists>deps. parse_npm_dependencies demo_read_json ''package.json'' = ([], Return deps) \<and>
      dict_lookup deps (JStr ''a'') = Some (JStr ''2.0'') \<and> fst ` set deps = {JStr ''a''})"
proof -
  let ?doc = "[(''dependencies'', JObj [(''a'', JStr ''1.0'')]),
               (''devDependencies'', JObj [(''a'', JStr ''2.0'')])]"
  have r: "demo_read_json ''package.json'' = Inr (JObj ?doc)" by (simp add: demo_read_json_def)
  have a: "member_object ?doc ''dependencies'' = Some [(''a'', JStr ''1.0'')]"
    and b: "member_object ?doc ''devDependencies'' = Some [(''a'', JStr ''2.0'')]"
    by (simp_all add: member_object_def)
  have d: "distinct (map fst [(''a'', JStr ''1.0'')])" "distinct (map fst [(''a'', JStr ''2.0'')])"
    by simp_all
  obtain deps where deps: "parse_npm_dependencies demo_read_json ''package.json'' = ([], Return deps)"
    and look: "\<forall>k. dict_lookup deps (JStr k) =
      (case map_of [(''a'', JStr ''2.0'')] k of Some v \<Rightarrow> Some v
       | None \<Rightarrow> map_of [(''a'', JStr ''1.0'')] k)"
    and keys: "fst ` set deps = JStr ` (fst ` set [(''a'', JStr ''1.0'')] \<union> fst ` set [(''a'', JStr ''2.0'')])"
    using parse_npm_dependencies_merge
      [of demo_read_json "''package.json''" ?doc "[(''a'', JStr ''1.0'')]" "[(''a'', JStr ''2.0'')]",
       OF r a b d]
    by blast
  have v: "parse_npm_dependencies demo_read_json ''package.json'' = ([], Return [(JStr ''a'', JStr ''2.0'')])"
    by (simp add: parse_npm_dependencies_def parse_npm_dependencies_try_def bind_exn_def
        demo_read_json_def)
  from look have "dict_lookup deps (JStr ''a'') = Some (JStr ''2.0'')" by simp
  moreover from keys have "fst ` set deps = {JStr ''a''}" by simp
  ultimately show ?thesis using r v deps by blast
qed

text \<open>
  C3 as stated fails for an object whose \<^verbatim>\<open>devDependencies\<close> member is \<^verbatim>\<open>null\<close>: \<^verbatim>\<open>update\<close> raises,
  the handler prints the error and the parser returns the empty mapping, although
  \<^verbatim>\<open>dependencies\<close> holds an entry.
\<close>

theorem parse_npm_dependencies_counterexample:
  "demo_read_json ''nodev/package.json'' =
     Inr (JObj [(''dependencies'', JObj [(''a'', JStr ''1.0'')]), (''devDependencies'', JNull)]) \<and>
   parse_npm_dependencies demo_read_json ''nodev/package.json'' =
     ([Print ''Error parsing package.json: 'NoneType' object is not iterable''], Return [])"
  by (simp add: parse_npm_dependencies_def parse_npm_dependencies_try_def bind_exn_def
      demo_read_json_def)

lemma py_split_single: "py_split sep s = [b] \<Longrightarrow> b = s"
proof (induction s arbitrary: b)
  case Nil
  then show ?case by simp
next
  case (Cons c cs)
  then show ?case by (auto simp: py_split_not_Nil split: if_splits list.splits)
qed

lemma py_split_two_partition:
  "sep \<noteq> [] \<Longrightarrow> py_split sep s = [a, b] \<Longrightarrow> partition_first sep s = (a, b)"
proof (induction s arbitrary: a)
  case Nil
  then show ?case by simp
next
  case (Cons c cs)
  show ?case
  proof (cases "prefix sep (c # cs)")
    case True
    with Cons.prems have "a = []" and "py_split sep (drop (length sep - 1) cs) = [b]" by auto
    then have "b = drop (length sep - 1) cs" by (auto dest: py_split_single)
    moreover have "drop (length sep) (c # cs) = drop (length sep - 1) cs"
      using Cons.prems(1) by (cases sep) auto
    ultimately show ?thesis using True \<open>a = []\<close> by simp
  next
    case False
    with Cons.prems obtain p where "a = c # p" and "py_split sep cs = [p, b]"
      by (auto split: list.splits)
    then show ?thesis using False Cons.IH [OF Cons.prems(1), of p] by simp
  qed
qed

lemma requirements_loop_append:
  "requirements_loop deps (xs @ ys) err =
     (case requirements_loop deps xs None of
        (deps', None) \<Rightarrow> requirements_loop deps' ys err
      | (deps', Some e) \<Rightarrow> (deps', Some e))"
  by (induction xs arbitrary: deps) (auto split: sum.splits)

lemma requirements_line_once:
  assumes "py_strip raw \<noteq> []" and "\<not> prefix ''#'' (py_strip raw)"
    and "py_contains ''=='' (py_strip raw)"
    and "py_split ''=='' (py_strip raw) = [name, version]"
  shows "requirements_line deps raw = Inr (dict_set deps name version)"
    and "partition_first ''=='' (py_strip raw) = (name, version)"
  using assms py_split_two_partition [of "''==''" "py_strip raw" name version]
  by (simp_all add: requirements_line_def unpack_pair_def)

lemma demo_requirements:
  "parse_python_requirements demo_open_lines ''requirements.txt'' =
     ([], Return [(''requests'', ''2.31.0''), (''flask'', ''2.0''), (''six'', ''Not specified'')])"
  by (simp add: parse_python_requirements_def demo_open_lines_def requirements_line_def
      unpack_pair_def py_strip_def strip_by_def is_space_def)

text \<open>
  C5 (as amended). Neither parser lets an exception through: each returns a mapping on every
  input. \<^verbatim>\<open>parse_npm_dependencies\<close> prints the error and returns the empty mapping whenever its
  \<^verbatim>\<open>try\<close> block raises. \<^verbatim>\<open>parse_python_requirements\<close> prints the error and returns the empty
  mapping when the file cannot be opened; when a line raises, or when reading stops with an
  error, it prints the error and returns the entries of the lines before.
\<close>

theorem parsers_catch_and_return:
  "(\<exists>deps. snd (parse_npm_dependencies read_json p) = Return deps) \<and>
   (parse_npm_dependencies_try read_json p = Inl e \<longrightarrow>
      parse_npm_dependencies read_json p =
        ([Print (''Error parsing package.json: '' @ exn_str e)], Return [])) \<and>
   (\<exists>deps. snd (parse_python_requirements open_lines q) = Return deps) \<and>
   (open_lines q = Inl e \<longrightarrow>
      parse_python_requirements open_lines q =
        ([Print (''Error parsing requirements.txt: '' @ exn_str e)], Return [])) \<and>
   (open_lines q = Inr (good @ bad # rest, err) \<and>
    requirements_loop [] good None = (deps, None) \<and> requirements_line deps bad = Inl e \<longrightarrow>
      parse_python_requirements open_lines q =
        ([Print (''Error parsing requirements.txt: '' @ exn_str e)], Return deps)) \<and>
   (open_lines q = Inr (good, Some e) \<and> requirements_loop [] good None = (deps, None) \<longrightarrow>
      parse_python_requirements open_lines q =
        ([Print (''Error parsing requirements.txt: '' @ exn_str e)], Return deps))"
proof (intro conjI impI)
  show "\<exists>deps. snd (parse_npm_dependencies read_json p) = Return deps"
    by (simp add: parse_npm_dependencies_def split: sum.splits)
  show "\<exists>deps. snd (parse_python_requirements open_lines q) = Return deps"
    by (simp add: parse_python_requirements_def split: sum.splits prod.splits option.splits)
next
  assume "parse_npm_dependencies_try read_json p = Inl e"
  then show "parse_npm_dependencies read_json p =
      ([Print (''Error parsing package.json: '' @ exn_str e)], Return [])"
    by (simp add: parse_npm_dependencies_def)
next
  assume "open_lines q = Inl e"
  then show "parse_python_requirements open_lines q =
      ([Print (''Error parsing requirements.txt: '' @ exn_str e)], Return [])"
    by (simp add: parse_python_requirements_def)
next
  assume "open_lines q = Inr (good @ bad # rest, err) \<and>
    requirements_loop [] good None = (deps, None) \<and> requirements_line deps bad = Inl e"
  then show "parse_python_requirements open_lines q =
      ([Print (''Error parsing requirements.txt: '' @ exn_str e)], Return deps)"
    by (simp add: parse_python_requirements_def requirements_loop_append)
next
  assume a: "open_lines q = Inr (good, Some e) \<and> requirements_loop [] good None = (deps, None)"
  then have "requirements_loop [] (good @ []) (Some e) = (deps, Some e)"
    by (simp only: requirements_loop_append) simp
  then show "parse_python_requirements open_lines q =
      ([Print (''Error parsing requirements.txt: '' @ exn_str e)], Return deps)"
    using a by (simp add: parse_python_requirements_def)
qed

text \<open>
  The theorem on a manifest whose \<^verbatim>\<open>devDependencies\<close> is \<^verbatim>\<open>null\<close>, on a requirements file that
  does not exist, on one whose second line cannot be unpacked and on a pipe whose second line
  cannot be decoded.
\<close>

theorem parsers_catch_and_return_witness:
  "parse_npm_dependencies_try demo_read_json ''nodev/package.json'' =
     Inl (Exn TypeError '''NoneType' object is not iterable'') \<and>
   parse_npm_dependencies demo_read_json ''nodev/package.json'' =
     ([Print ''Error parsing package.json: 'NoneType' object is not iterable''], Return []) \<and>
   demo_open_lines ''absent.txt'' =
     Inl (Exn OSError (''[Errno 2] No such file or directory: '' @ py_repr ''absent.txt'')) \<and>
   parse_python_requirements demo_open_lines ''absent.txt'' =
     ([Print (''Error parsing requirements.txt: [Errno 2] No such file or directory: '' @
        py_repr ''absent.txt'')], Return []) \<and>
   requirements_loop [] [''six'' @ [CHR 0x0A]] None = ([(''six'', ''Not specified'')], None) \<and>
   parse_python_requirements demo_open_lines ''markers/requirements.txt'' =
     ([Print ''Error parsing requirements.txt: too many values to unpack (expected 2)''],
      Return [(''six'', ''Not specified'')]) \<and>
   requirements_loop [] [''requests==2.31.0'' @ [CHR 0x0A]] None =
     ([(''requests'', ''2.31.0'')], None) \<and>
   parse_python_requirements demo_open_lines ''/dev/stdin'' =
     ([Print (''Error parsing requirements.txt: '' @
        '''utf-8' codec can't decode byte 0xe9 in position 24: invalid continuation byte'')],
      Return [(''requests'', ''2.31.0'')])"
proof -
  let ?none = "Exn TypeError '''NoneType' object is not iterable''"
  let ?absent = "Exn OSError (''[Errno 2] No such file or directory: '' @ py_repr ''absent.txt'')"
  let ?many = "Exn ValueError ''too many values to unpack (expected 2)''"
  let ?codec = "Exn UnicodeDecodeError
    '''utf-8' codec can't decode byte 0xe9 in position 24: invalid continuation byte''"
  let ?bad = \<open>''requests==2.31.0; python_version=="3.8"'' @ [CHR 0x0A]\<close>
  have n: "parse_npm_dependencies_try demo_read_json ''nodev/package.json'' = Inl ?none"
    by (simp add: parse_npm_dependencies_try_def bind_exn_def demo_read_json_def)
  have o: "demo_open_lines ''absent.txt'' = Inl ?absent"
    by (simp add: demo_open_lines_def)
  have m: "demo_open_lines ''markers/requirements.txt'' =
      Inr ([''six'' @ [CHR 0x0A]] @ ?bad # [''flask>=2.0'' @ [CHR 0x0A]], None)"
    by (simp add: demo_open_lines_def)
  have g: "requirements_loop [] [''six'' @ [CHR 0x0A]] None = ([(''six'', ''Not specified'')], None)"
    by (simp add: requirements_line_def py_strip_def strip_by_def is_space_def)
  have b: "requirements_line [(''six'', ''Not specified'')] ?bad = Inl ?many"
    by (simp add: requirements_line_def py_strip_def strip_by_def is_space_def unpack_pair_def
        unpack_error_def)
  have l: "demo_open_lines ''/dev/stdin'' =
      Inr ([''requests==2.31.0'' @ [CHR 0x0A]], Some ?codec)"
    by (simp add: demo_open_lines_def)
  have r: "requirements_loop [] [''requests==2.31.0'' @ [CHR 0x0A]] None =
      ([(''requests'', ''2.31.0'')], None)"
    by (simp add: requirements_line_def py_strip_def strip_by_def is_space_def unpack_pair_def)
  have t1: "parse_npm_dependencies demo_read_json ''nodev/package.json'' =
      ([Print (''Error parsing package.json: '' @ exn_str ?none)], Return [])"
    using parsers_catch_and_return [of demo_read_json "''nodev/package.json''" ?none] n by blast
  have t2: "parse_python_requirements demo_open_lines ''absent.txt'' =
      ([Print (''Error parsing requirements.txt: '' @ exn_str ?absent)], Return [])"
    using parsers_catch_and_return [of _ _ ?absent demo_open_lines "''absent.txt''"] o by blast
  have t3: "parse_python_requirements demo_open_lines ''markers/requirements.txt'' =
      ([Print (''Error parsing requirements.txt: '' @ exn_str ?many)],
       Return [(''six'', ''Not specified'')])"
    using parsers_catch_and_return [of _ _ ?many demo_open_lines "''markers/requirements.txt''"
        "[''six'' @ [CHR 0x0A]]" ?bad "[''flask>=2.0'' @ [CHR 0x0A]]" None
        "[(''six'', ''Not specified'')]"] m g b
    by blast
  have t4: "parse_python_requirements demo_open_lines ''/dev/stdin'' =
      ([Print (''Error parsing requirements.txt: '' @ exn_str ?codec)],
       Return [(''requests'', ''2.31.0'')])"
    using parsers_catch_and_return [of _ _ ?codec demo_open_lines "''/dev/stdin''"
        "[''requests==2.31.0'' @ [CHR 0x0A]]" _ _ _ "[(''requests'', ''2.31.0'')]"] l r
    by blast
  from n o g r t1 t2 t3 t4 show ?thesis by simp
qed

text \<open>
  C5 as stated fails for \<^verbatim>\<open>parse_python_requirements\<close>: when the second line of a file
  raises, the error is caught and printed, and the mapping returned holds the entry of the
  first line; it is not empty.
\<close>

theorem parse_python_requirements_counterexample:
  \<open>demo_open_lines ''markers/requirements.txt'' =
     Inr ([''six'' @ [CHR 0x0A],
           ''requests==2.31.0; python_version=="3.8"'' @ [CHR 0x0A],
           ''flask>=2.0'' @ [CHR 0x0A]], None) \<and>
   fst (parse_python_requirements demo_open_lines ''markers/requirements.txt'') =
     [Print ''Error parsing requirements.txt: too many values to unpack (expected 2)''] \<and>
   snd (parse_python_requirements demo_open_lines ''markers/requirements.txt'') =
     Return [(''six'', ''Not specified'')] \<and>
   snd (parse_python_requirements demo_open_lines ''markers/requirements.txt'') \<noteq> Return []\<close>
  by (simp add: parse_python_requirements_def demo_open_lines_def requirements_line_def
      unpack_pair_def unpack_error_def py_strip_def strip_by_def is_space_def)

text \<open>
  C4 fails on a line that holds \<^verbatim>\<open>==\<close> twice, such as a pinned requirement with an environment
  marker. The claim gives the name \<^verbatim>\<open>requests\<close> and, as the version, everything after the first
  \<^verbatim>\<open>==\<close>. The code splits at every occurrence and unpacks three pieces into two names, which
  raises: the line gives no entry, and the next line \<^verbatim>\<open>flask>=2.0\<close> is never read.
\<close>

theorem parse_python_requirements_repeated_operator:
  \<open>demo_open_lines ''markers/requirements.txt'' =
     Inr ([''six'' @ [CHR 0x0A],
           ''requests==2.31.0; python_version=="3.8"'' @ [CHR 0x0A],
           ''flask>=2.0'' @ [CHR 0x0A]], None) \<and>
   partition_first ''=='' (py_strip (''requests==2.31.0; python_version=="3.8"'' @ [CHR 0x0A])) =
     (''requests'', ''2.31.0; python_version=="3.8"'') \<and>
   parse_python_requirements demo_open_lines ''markers/requirements.txt'' =
     ([Print ''Error parsing requirements.txt: too many values to unpack (expected 2)''],
      Return [(''six'', ''Not specified'')])\<close>
  by (simp add: parse_python_requirements_def demo_open_lines_def requirements_line_def
      unpack_pair_def unpack_error_def py_strip_def strip_by_def is_space_def)

section \<open>The outdated checker\<close>












section \<open>The orchestrator\<close>

lemma validate_return:
  "snd (validate_github_url up url) = Return pr \<Longrightarrow> validate_github_url up url = ([], Return pr)"
  by (auto simp: validate_github_url_def split: sum.splits)

lemma validate_outcome:
  "snd (validate_github_url up url) = Exit n \<Longrightarrow> n = 1"
  "snd (validate_github_url up url) \<noteq> Raise e"
  by (auto simp: validate_github_url_def split: sum.splits)

lemma clone_repo_exit: "clone_repo env w url d = (evs, w', Exit n) \<Longrightarrow> n = 1"
  by (auto simp: clone_repo_def Let_def split: if_splits prod.splits sum.splits)

lemma clone_repo_ok:
  assumes "which_git env w" and "run env w (clone_command url d) None = (Inr p, w')"
    and "returncode p = 0"
  shows "clone_repo env w url d =
    ([Print (analyzing_line url), Call (clone_command url d) None], w', Return ())"
  using assms by (simp add: clone_repo_def Let_def)

lemma clone_repo_failed:
  assumes "which_git env w" and "run env w (clone_command url d) None = (Inr p, w')"
    and "returncode p \<noteq> 0"
  shows "clone_repo env w url d =
    ([Print (analyzing_line url), Call (clone_command url d) None,
      Print (''Error cloning repository: '' @
        called_process_error_str (signal_name env) (clone_command url d) (returncode p))],
     w', Exit 1)"
  using assms by (simp add: clone_repo_def Let_def)

text \<open>
  C8. When the argument count is right, the URL parses, the clone succeeds and detection
  yields an empty map, \<^verbatim>\<open>main\<close> prints the line about no recognized dependency files and leaves
  with code 0; the clone is the only subprocess of the run. Every early exit of \<^verbatim>\<open>main\<close> has
  code 0 or 1, and code 0 occurs on no other path than that one.
\<close>

theorem main_exit_zero_without_manifests:
  "(length argv = 2 \<and> snd (validate_github_url (urlparse_path env) (argv ! 1)) = Return pr \<and>
    mkdtemp env w = (temp_dir, w0) \<and> which_git env w0 \<and>
    run env w0 (clone_command (argv ! 1) temp_dir) None = (Inr p, w1) \<and> returncode p = 0 \<and>
    detect_package_managers temp_dir (tree_at env w1 temp_dir) = [] \<longrightarrow>
      main env w argv =
        ([Print (analyzing_line (argv ! 1)), Call (clone_command (argv ! 1) temp_dir) None,
          Scan temp_dir, Print no_files_line], w1, Exit 0)) \<and>
   (snd (snd (main env w argv)) = Exit n \<longrightarrow> n = 0 \<or> n = 1) \<and>
   (snd (snd (main env w argv)) = Exit 0 \<longrightarrow>
      (\<exists>d v evs v'. mkdtemp env w = (d, v) \<and> clone_repo env v (argv ! 1) d = (evs, v', Return ()) \<and>
         detect_package_managers d (tree_at env v' d) = []))"
proof (intro conjI impI)
  assume a: "length argv = 2 \<and> snd (validate_github_url (urlparse_path env) (argv ! 1)) = Return pr \<and>
    mkdtemp env w = (temp_dir, w0) \<and> which_git env w0 \<and>
    run env w0 (clone_command (argv ! 1) temp_dir) None = (Inr p, w1) \<and> returncode p = 0 \<and>
    detect_package_managers temp_dir (tree_at env w1 temp_dir) = []"
  then have v: "validate_github_url (urlparse_path env) (argv ! 1) = ([], Return pr)"
    by (simp add: validate_return)
  from a have c: "clone_repo env w0 (argv ! 1) temp_dir =
      ([Print (analyzing_line (argv ! 1)), Call (clone_command (argv ! 1) temp_dir) None], w1, Return ())"
    by (simp add: clone_repo_ok)
  show "main env w argv =
      ([Print (analyzing_line (argv ! 1)), Call (clone_command (argv ! 1) temp_dir) None,
        Scan temp_dir, Print no_files_line], w1, Exit 0)"
    using a v c by (simp add: main_def Let_def)
next
  assume e: "snd (snd (main env w argv)) = Exit n"
  show "n = 0 \<or> n = 1"
  proof (cases "length argv = 2")
    case False
    then show ?thesis using e by (simp add: main_def Let_def)
  next
    case True
    obtain evs0 r0 where v: "validate_github_url (urlparse_path env) (argv ! 1) = (evs0, r0)"
      by (cases "validate_github_url (urlparse_path env) (argv ! 1)")
    obtain d v0 where m: "mkdtemp env w = (d, v0)" by (cases "mkdtemp env w")
    obtain evs1 v1 r1 where c: "clone_repo env v0 (argv ! 1) d = (evs1, v1, r1)"
      by (cases "clone_repo env v0 (argv ! 1) d") auto
    show ?thesis
    proof (cases r0)
      case (Exit k)
      then have "k = 1" using validate_outcome(1) [of "urlparse_path env" "argv ! 1" k] v by simp
      then show ?thesis using e True v Exit by (simp add: main_def Let_def)
    next
      case (Raise x)
      then show ?thesis using e True v by (simp add: main_def Let_def)
    next
      case (Return pr)
      show ?thesis
      proof (cases r1)
        case (Exit k)
        then have "k = 1" using clone_repo_exit [of env v0 "argv ! 1" d evs1 v1 k] c by simp
        then show ?thesis using e True v Return m c Exit by (simp add: main_def Let_def)
      next
        case (Raise x)
        then show ?thesis using e True v Return m c by (simp add: main_def Let_def)
      next
        case (Return u)
        then show ?thesis using e True v \<open>r0 = Return pr\<close> m c
          by (auto simp: main_def Let_def split: if_splits prod.splits)
      qed
    qed
  qed
next
  assume e: "snd (snd (main env w argv)) = Exit 0"
  show "\<exists>d v evs v'. mkdtemp env w = (d, v) \<and> clone_repo env v (argv ! 1) d = (evs, v', Return ()) \<and>
         detect_package_managers d (tree_at env v' d) = []"
  proof (cases "length argv = 2")
    case False
    then show ?thesis using e by (simp add: main_def Let_def)
  next
    case True
    obtain evs0 r0 where v: "validate_github_url (urlparse_path env) (argv ! 1) = (evs0, r0)"
      by (cases "validate_github_url (urlparse_path env) (argv ! 1)")
    obtain d v0 where m: "mkdtemp env w = (d, v0)" by (cases "mkdtemp env w")
    obtain evs1 v1 r1 where c: "clone_repo env v0 (argv ! 1) d = (evs1, v1, r1)"
      by (cases "clone_repo env v0 (argv ! 1) d") auto
    show ?thesis
    proof (cases r0)
      case (Exit k)
      then have "k = 1" using validate_outcome(1) [of "urlparse_path env" "argv ! 1" k] v by simp
      then show ?thesis using e True v Exit by (simp add: main_def Let_def)
    next
      case (Raise x)
      then show ?thesis using e True v by (simp add: main_def Let_def)
    next
      case (Return pr)
      show ?thesis
      proof (cases r1)
        case (Exit k)
        then have "k = 1" using clone_repo_exit [of env v0 "argv ! 1" d evs1 v1 k] c by simp
        then show ?thesis using e True v Return m c Exit by (simp add: main_def Let_def)
      next
        case (Raise x)
        then show ?thesis using e True v Return m c by (simp add: main_def Let_def)
      next
        case (Return u)
        then show ?thesis using e True v \<open>r0 = Return pr\<close> m c
          by (auto simp: main_def Let_def split: if_splits prod.splits)
      qed
    qed
  qed
qed

text \<open>
  The theorem on a repository whose only \<^verbatim>\<open>package.json\<close> lies in a subdirectory.
\<close>

theorem main_exit_zero_without_manifests_witness:
  "length [''app.py'', ''https://github.com/octocat/plain''] = 2 \<and>
   snd (validate_github_url (urlparse_path demo_env) ''https://github.com/octocat/plain'') =
     Return (''octocat'', ''plain'') \<and>
   detect_package_managers ''/tmp/tmpab12''
     (tree_at demo_env [clone_command ''https://github.com/octocat/plain'' ''/tmp/tmpab12'']
        ''/tmp/tmpab12'') = [] \<and>
   main demo_env [] [''app.py'', ''https://github.com/octocat/plain''] =
     ([Print (analyzing_line ''https://github.com/octocat/plain''),
       Call (clone_command ''https://github.com/octocat/plain'' ''/tmp/tmpab12'') None,
       Scan ''/tmp/tmpab12'', Print no_files_line],
      [clone_command ''https://github.com/octocat/plain'' ''/tmp/tmpab12''], Exit 0)"
proof -
  let ?url = "''https://github.com/octocat/plain''"
  let ?argv = "[''app.py'', ?url]"
  let ?cmd = "clone_command ?url ''/tmp/tmpab12''"
  have h1: "length ?argv = 2" by simp
  have h2: "snd (validate_github_url (urlparse_path demo_env) (?argv ! 1)) =
      Return (''octocat'', ''plain'')"
    by (simp add: demo_env_def demo_urlparse_def validate_github_url_def
        validate_github_url_try_def bind_exn_def py_strip_chars_def strip_by_def)
  have h3: "mkdtemp demo_env [] = (''/tmp/tmpab12'', [])" by (simp add: demo_env_def)
  have h4: "which_git demo_env []" by (simp add: demo_env_def)
  have h5: "run demo_env [] (clone_command (?argv ! 1) ''/tmp/tmpab12'') None =
      (Inr \<lparr>returncode = 0, stdout = [], stderr = []\<rparr>, [?cmd])"
    by (simp add: demo_env_def demo_run_def clone_command_def)
  have h6: "returncode \<lparr>returncode = 0, stdout = [], stderr = []\<rparr> = 0" by simp
  have h7: "detect_package_managers ''/tmp/tmpab12'' (tree_at demo_env [?cmd] ''/tmp/tmpab12'') = []"
    by (simp add: demo_env_def demo_tree_def clone_command_def detect_package_managers_eq
        package_files_def detected_pair marker_present_def path_exists_def)
  have "main demo_env [] ?argv =
      ([Print (analyzing_line (?argv ! 1)), Call (clone_command (?argv ! 1) ''/tmp/tmpab12'') None,
        Scan ''/tmp/tmpab12'', Print no_files_line], [?cmd], Exit 0)"
    using main_exit_zero_without_manifests [of ?argv demo_env "(''octocat'', ''plain'')" "[]"
        "''/tmp/tmpab12''" "[]" "\<lparr>returncode = 0, stdout = [], stderr = []\<rparr>" "[?cmd]" 0]
      h1 h2 h3 h4 h5 h6 h7 by blast
  then show ?thesis using h2 h7 by simp
qed

text \<open>
  C9 (as amended). When the clone ends with a non-zero status, \<^verbatim>\<open>main\<close> leaves with code 1
  after three events: the line that announces the analysis, the clone itself, and the line
  \<^verbatim>\<open>Error cloning repository:\<close> followed by the description of the failed call, which gives the
  command and its exit status. No directory is scanned and no other subprocess is started.
\<close>

theorem main_clone_failure:
  assumes "length argv = 2"
    and "snd (validate_github_url (urlparse_path env) (argv ! 1)) = Return pr"
    and "mkdtemp env w = (temp_dir, w0)" and "which_git env w0"
    and "run env w0 (clone_command (argv ! 1) temp_dir) None = (Inr p, w1)"
    and "returncode p \<noteq> 0"
  shows "main env w argv =
    ([Print (analyzing_line (argv ! 1)), Call (clone_command (argv ! 1) temp_dir) None,
      Print (''Error cloning repository: '' @
        called_process_error_str (signal_name env) (clone_command (argv ! 1) temp_dir)
          (returncode p))],
     w1, Exit 1)"
proof -
  have v: "validate_github_url (urlparse_path env) (argv ! 1) = ([], Return pr)"
    using assms(2) by (rule validate_return)
  have c: "clone_repo env w0 (argv ! 1) temp_dir =
    ([Print (analyzing_line (argv ! 1)), Call (clone_command (argv ! 1) temp_dir) None,
      Print (''Error cloning repository: '' @
        called_process_error_str (signal_name env) (clone_command (argv ! 1) temp_dir)
          (returncode p))],
     w1, Exit 1)"
    using assms(4,5,6) by (rule clone_repo_failed)
  show ?thesis using assms(1,3) v c by (simp add: main_def Let_def)
qed

text \<open>The theorem on a repository that does not exist, where the clone ends with status 128.\<close>

theorem main_clone_failure_witness:
  "snd (validate_github_url (urlparse_path demo_env) ''https://github.com/missing/repo'') =
     Return (''missing'', ''repo'') \<and>
   run demo_env [] (clone_command ''https://github.com/missing/repo'' ''/tmp/tmpab12'') None =
     (Inr \<lparr>returncode = 128, stdout = [], stderr = ''fatal: repository not found''\<rparr>,
      [clone_command ''https://github.com/missing/repo'' ''/tmp/tmpab12'']) \<and>
   main demo_env [] [''app.py'', ''https://github.com/missing/repo''] =
     ([Print (analyzing_line ''https://github.com/missing/repo''),
       Call (clone_command ''https://github.com/missing/repo'' ''/tmp/tmpab12'') None,
       Print (''Error cloning repository: '' @
         called_process_error_str (signal_name demo_env)
           (clone_command ''https://github.com/missing/repo'' ''/tmp/tmpab12'') 128)],
      [clone_command ''https://github.com/missing/repo'' ''/tmp/tmpab12''], Exit 1)"
proof -
  let ?url = "''https://github.com/missing/repo''"
  let ?argv = "[''app.py'', ?url]"
  let ?cmd = "clone_command ?url ''/tmp/tmpab12''"
  let ?p = "\<lparr>returncode = 128, stdout = [], stderr = ''fatal: repository not found''\<rparr>"
  have h1: "length ?argv = 2" by simp
  have h2: "snd (validate_github_url (urlparse_path demo_env) (?argv ! 1)) =
      Return (''missing'', ''repo'')"
    by (simp add: demo_env_def demo_urlparse_def validate_github_url_def
        validate_github_url_try_def bind_exn_def py_strip_chars_def strip_by_def)
  have h3: "mkdtemp demo_env [] = (''/tmp/tmpab12'', [])" by (simp add: demo_env_def)
  have h4: "which_git demo_env []" by (simp add: demo_env_def)
  have h5: "run demo_env [] (clone_command (?argv ! 1) ''/tmp/tmpab12'') None = (Inr ?p, [?cmd])"
    by (simp add: demo_env_def demo_run_def clone_command_def)
  have h6: "returncode ?p \<noteq> 0" by simp
  show ?thesis
    using main_clone_failure [OF h1 h2 h3 h4 h5 h6] h2 h5 by simp
qed

text \<open>
  C9 as stated fails in its last part: the text that the clone wrote to its standard error is
  captured and never printed. In the run above that text is \<^verbatim>\<open>fatal: repository not found\<close>, and
  it occurs nowhere in what the run prints.
\<close>

theorem main_clone_failure_counterexample:
  "run demo_env [] (clone_command ''https://github.com/missing/repo'' ''/tmp/tmpab12'') None =
     (Inr \<lparr>returncode = 128, stdout = [], stderr = ''fatal: repository not found''\<rparr>,
      [clone_command ''https://github.com/missing/repo'' ''/tmp/tmpab12'']) \<and>
   snd (snd (main demo_env [] [''app.py'', ''https://github.com/missing/repo''])) = Exit 1 \<and>
   \<not> py_contains ''fatal: repository not found''
     (printed (fst (main demo_env [] [''app.py'', ''https://github.com/missing/repo''])))"
  by code_simp

end
